theory Spec2Isabelle
  imports Complex_Main "HOL-Library.Char_ord" "HOL-Library.List_Lexorder" "HOL-Library.AList"
begin

section \<open>Temporal fold generator\<close>

text \<open>
  \<^verbatim>\<open>time_folds\<close> reads two things of the training table: its column \<^verbatim>\<open>year\<close> and its
  index. The table comes from \<^verbatim>\<open>pd.read_parquet\<close> of a file written with
  \<^verbatim>\<open>index=False\<close>, so the index is the range \<open>0 ..< n\<close> and an index label is a row
  position. The column is \<open>None\<close> when the table has no column \<^verbatim>\<open>year\<close>; a cell is
  \<open>None\<close> when it is missing (NaN). The key type is any linear order (the years are
  numbers in the data files).
\<close>

type_synonym 'k year_column = "'k option list option"

text \<open>\<^verbatim>\<open>df["year"].dropna()\<close>: the cells that are present, in row order.\<close>

definition dropna :: "'k option list \<Rightarrow> 'k list" where
  "dropna col = List.map_filter (\<lambda>c. c) col"

text \<open>
  \<^verbatim>\<open>df.index[mask].to_numpy()\<close>: the positions whose cell satisfies the comparison.
  A comparison with a missing cell is false in pandas, for \<^verbatim>\<open><\<close> and for \<^verbatim>\<open>==\<close>.
\<close>

definition index_where :: "('k \<Rightarrow> bool) \<Rightarrow> 'k option list \<Rightarrow> nat list" where
  "index_where p col =
     filter (\<lambda>i. case col ! i of None \<Rightarrow> False | Some k \<Rightarrow> p k) [0..<length col]"

text \<open>The loop \<^verbatim>\<open>for year in fold_years\<close> of \<^verbatim>\<open>V4StackedTrainer.time_folds\<close>.\<close>

fun fold_loop :: "'k::linorder option list \<Rightarrow> 'k list \<Rightarrow> (nat list \<times> nat list \<times> 'k) list" where
  "fold_loop col [] = []"
| "fold_loop col (year # fold_years) =
     (let train_idx = index_where (\<lambda>k. k < year) col;
          val_idx = index_where (\<lambda>k. k = year) col
      in (if length train_idx > 0 \<and> length val_idx > 0
          then [(train_idx, val_idx, year)] else []) @ fold_loop col fold_years)"

text \<open>\<^verbatim>\<open>V4StackedTrainer.time_folds\<close> (train_v4_models.py); \<open>None\<close> is Python's \<^verbatim>\<open>None\<close>.\<close>

definition time_folds :: "'k::linorder year_column \<Rightarrow> (nat list \<times> nat list \<times> 'k) list option" where
  "time_folds df_year =
     (case df_year of
        None \<Rightarrow> None
      | Some col \<Rightarrow>
          (let years = sort (remdups (dropna col)) in
           if length years < 5 then None
           else (let start_index = 3;
                     fold_years = drop start_index years
                 in Some (fold_loop col fold_years))))"

text \<open>The module-level \<^verbatim>\<open>time_folds\<close> of train_v4_tuned.py: the same, without the year.\<close>

fun fold_loop_tuned :: "'k::linorder option list \<Rightarrow> 'k list \<Rightarrow> (nat list \<times> nat list) list" where
  "fold_loop_tuned col [] = []"
| "fold_loop_tuned col (year # fold_years) =
     (let train_idx = index_where (\<lambda>k. k < year) col;
          val_idx = index_where (\<lambda>k. k = year) col
      in (if length train_idx > 0 \<and> length val_idx > 0
          then [(train_idx, val_idx)] else []) @ fold_loop_tuned col fold_years)"

definition time_folds_tuned :: "'k::linorder year_column \<Rightarrow> (nat list \<times> nat list) list option" where
  "time_folds_tuned df_year =
     (case df_year of
        None \<Rightarrow> None
      | Some col \<Rightarrow>
          (let years = sort (remdups (dropna col)) in
           if length years < 5 then None
           else (let start_index = 3;
                     fold_years = drop start_index years
                 in Some (fold_loop_tuned col fold_years))))"



section \<open>Errors and library calls\<close>

text \<open>
  A Python exception is a value of \<open>error\<close>; a call that can raise returns
  \<open>error + 'a\<close>, with \<open>Inl\<close> for the exception.
\<close>

datatype error = KeyError string | IndexError | ValueError | TypeError | LibraryError string

text \<open>
  A feature matrix is a list of rows; a cell is \<open>None\<close> when it is NaN. The estimators
  (scikit-learn, XGBoost, LightGBM), the metrics and \<^verbatim>\<open>StratifiedKFold\<close> are library
  code: they are parameters of the model. \<open>'m\<close> is an estimator object, its
  hyperparameters together with what it has learnt; \<open>fit\<close> returns the object as
  \<^verbatim>\<open>model.fit(X, y)\<close> leaves it, \<open>predict_proba\<close> is \<^verbatim>\<open>model.predict_proba(X)[:, 1]\<close>,
  and \<open>stratified_kfold n_splits shuffle random_state X y\<close> is
  \<^verbatim>\<open>StratifiedKFold(n_splits, shuffle, random_state).split(X, y)\<close>.
\<close>

type_synonym matrix = "real option list list"

record 'm learners =
  fit :: "'m \<Rightarrow> matrix \<Rightarrow> int list \<Rightarrow> error + 'm"
  predict_proba :: "'m \<Rightarrow> matrix \<Rightarrow> error + real list"
  predict :: "'m \<Rightarrow> matrix \<Rightarrow> error + int list"
  roc_auc_score :: "int list \<Rightarrow> real list \<Rightarrow> error + real"
  accuracy_score :: "int list \<Rightarrow> int list \<Rightarrow> real"
  stratified_kfold :: "nat \<Rightarrow> bool \<Rightarrow> nat \<Rightarrow> matrix \<Rightarrow> int list \<Rightarrow> error + (nat list \<times> nat list) list"

text \<open>\<^verbatim>\<open>X[idx]\<close> with an index array: numpy raises IndexError out of range.\<close>

definition take_rows :: "'a list \<Rightarrow> nat list \<Rightarrow> error + 'a list" where
  "take_rows X idx =
     (if \<exists>i\<in>set idx. length X \<le> i then Inl IndexError else Inr (map (\<lambda>i. X ! i) idx))"

text \<open>
  \<^verbatim>\<open>arr[idx] = vals\<close>: the values are written in order (the last write to an index
  wins); one value is broadcast to every index; any other length mismatch is a
  ValueError.
\<close>

definition assign_at :: "real option list \<Rightarrow> nat list \<Rightarrow> real list \<Rightarrow> error + real option list" where
  "assign_at arr idx vals =
     (if \<exists>i\<in>set idx. length arr \<le> i then Inl IndexError
      else if length vals = length idx
        then Inr (fold (\<lambda>(i, v) a. a[i := Some v]) (zip idx vals) arr)
      else if length vals = 1
        then Inr (fold (\<lambda>i a. a[i := Some (hd vals)]) idx arr)
      else Inl ValueError)"

text \<open>\<^verbatim>\<open>(probs >= 0.5).astype(int)\<close>\<close>

definition threshold :: "real list \<Rightarrow> int list" where
  "threshold probs = map (\<lambda>p. if p \<ge> 0.5 then 1 else 0) probs"

section \<open>Out-of-fold predictor\<close>

text \<open>
  Lines 137 to 140 of \<^verbatim>\<open>get_oof_predictions\<close>: the folds of \<^verbatim>\<open>time_folds\<close>, or, when
  it returns \<^verbatim>\<open>None\<close>, those of \<^verbatim>\<open>StratifiedKFold(n_splits=5, shuffle=True,
  random_state=42)\<close>, with \<^verbatim>\<open>None\<close> for the year.
\<close>

definition select_folds ::
  "('m, 'x) learners_scheme \<Rightarrow> matrix \<Rightarrow> int list \<Rightarrow> 'k::linorder year_column
     \<Rightarrow> error + (nat list \<times> nat list \<times> 'k option) list" where
  "select_folds api X y df_year =
     (case time_folds df_year of
        None \<Rightarrow>
          (case stratified_kfold api 5 True 42 X y of
             Inl e \<Rightarrow> Inl e
           | Inr skf \<Rightarrow> Inr (map (\<lambda>(train_idx, val_idx). (train_idx, val_idx, None)) skf))
      | Some folds \<Rightarrow>
          Inr (map (\<lambda>(train_idx, val_idx, year). (train_idx, val_idx, Some year)) folds))"

text \<open>
  The loop \<^verbatim>\<open>for name, model in base_models.items()\<close>. The two dictionaries are
  association lists in insertion order. \<^verbatim>\<open>model.fit\<close> changes the estimator object in
  place, so the loop returns the estimators as it leaves them. The accuracy is computed
  for the log only; \<^verbatim>\<open>roc_auc_score\<close> is too, but it can raise.
\<close>

fun fit_models ::
  "('m, 'x) learners_scheme \<Rightarrow> matrix \<Rightarrow> int list \<Rightarrow> matrix \<Rightarrow> int list \<Rightarrow> nat list
     \<Rightarrow> (string \<times> 'm) list \<Rightarrow> (string \<times> real option list) list
     \<Rightarrow> error + ((string \<times> 'm) list \<times> (string \<times> real option list) list)" where
  "fit_models api X_tr y_tr X_va y_va val_idx [] oof_preds = Inr ([], oof_preds)"
| "fit_models api X_tr y_tr X_va y_va val_idx ((name, model) # items) oof_preds =
     (case fit api model X_tr y_tr of Inl e \<Rightarrow> Inl e | Inr model' \<Rightarrow>
      case predict_proba api model' X_va of Inl e \<Rightarrow> Inl e | Inr probs \<Rightarrow>
      case map_of oof_preds name of None \<Rightarrow> Inl (KeyError name) | Some column \<Rightarrow>
      case assign_at column val_idx probs of Inl e \<Rightarrow> Inl e | Inr column' \<Rightarrow>
      case roc_auc_score api y_va probs of Inl e \<Rightarrow> Inl e | Inr auc \<Rightarrow>
      case fit_models api X_tr y_tr X_va y_va val_idx items (AList.update name column' oof_preds) of
        Inl e \<Rightarrow> Inl e
      | Inr (items', oof_preds') \<Rightarrow> Inr ((name, model') # items', oof_preds'))"

text \<open>The loop \<^verbatim>\<open>for fold_id, (train_idx, val_idx, fold_year) in enumerate(folds)\<close>.\<close>

fun oof_loop ::
  "('m, 'x) learners_scheme \<Rightarrow> matrix \<Rightarrow> int list \<Rightarrow> (nat list \<times> nat list \<times> 'k option) list
     \<Rightarrow> (string \<times> 'm) list \<Rightarrow> (string \<times> real option list) list
     \<Rightarrow> error + ((string \<times> 'm) list \<times> (string \<times> real option list) list)" where
  "oof_loop api X y [] base_models oof_preds = Inr (base_models, oof_preds)"
| "oof_loop api X y ((train_idx, val_idx, fold_year) # folds) base_models oof_preds =
     (case take_rows X train_idx of Inl e \<Rightarrow> Inl e | Inr X_tr \<Rightarrow>
      case take_rows y train_idx of Inl e \<Rightarrow> Inl e | Inr y_tr \<Rightarrow>
      case take_rows X val_idx of Inl e \<Rightarrow> Inl e | Inr X_va \<Rightarrow>
      case take_rows y val_idx of Inl e \<Rightarrow> Inl e | Inr y_va \<Rightarrow>
      case fit_models api X_tr y_tr X_va y_va val_idx base_models oof_preds of
        Inl e \<Rightarrow> Inl e
      | Inr (base_models', oof_preds') \<Rightarrow> oof_loop api X y folds base_models' oof_preds')"

text \<open>
  \<^verbatim>\<open>V4StackedTrainer.get_oof_predictions\<close>. Of \<^verbatim>\<open>train_df\<close> it reads the column
  \<^verbatim>\<open>year\<close> only. It returns \<^verbatim>\<open>oof_preds\<close>, here together with the estimators it has
  refitted in place.
\<close>

definition get_oof_predictions ::
  "('m, 'x) learners_scheme \<Rightarrow> matrix \<Rightarrow> int list \<Rightarrow> 'k::linorder year_column
     \<Rightarrow> (string \<times> 'm) list
     \<Rightarrow> error + ((string \<times> 'm) list \<times> (string \<times> real option list) list)" where
  "get_oof_predictions api X y df_year base_models =
     (let oof_preds = map (\<lambda>(name, model). (name, replicate (length y) None)) base_models in
      case select_folds api X y df_year of
        Inl e \<Rightarrow> Inl e
      | Inr folds \<Rightarrow> oof_loop api X y folds base_models oof_preds)"

section \<open>Stacking meta-learner\<close>

text \<open>
  \<^verbatim>\<open>np.column_stack\<close> of one-dimensional arrays: the arrays become the columns of a
  matrix, given as its rows. It raises on an empty list and on arrays of different
  lengths.
\<close>

definition column_stack :: "'a list list \<Rightarrow> error + 'a list list" where
  "column_stack cols =
     (if cols = [] then Inl ValueError
      else if \<exists>c\<in>set cols. length c \<noteq> length (hd cols) then Inl ValueError
      else Inr (map (\<lambda>i. map (\<lambda>c. c ! i) cols) [0..<length (hd cols)]))"

text \<open>\<^verbatim>\<open>[d[name] for name in names]\<close>\<close>

fun lookup_all :: "(string \<times> 'a) list \<Rightarrow> string list \<Rightarrow> error + 'a list" where
  "lookup_all d [] = Inr []"
| "lookup_all d (name # names) =
     (case map_of d name of None \<Rightarrow> Inl (KeyError name) | Some v \<Rightarrow>
      case lookup_all d names of Inl e \<Rightarrow> Inl e | Inr vs \<Rightarrow> Inr (v # vs))"

text \<open>\<^verbatim>\<open>a[mask]\<close> with a boolean mask: the mask must be as long as the array.\<close>

definition mask_rows :: "'a list \<Rightarrow> bool list \<Rightarrow> error + 'a list" where
  "mask_rows a keep =
     (if length keep \<noteq> length a then Inl IndexError
      else Inr (map fst (filter snd (zip a keep))))"

text \<open>
  \<^verbatim>\<open>V4StackedTrainer.train_meta_model\<close>; \<open>meta0\<close> is the new
  \<^verbatim>\<open>LogisticRegression(max_iter=2000, solver="liblinear", random_state=42)\<close>. It also
  returns, for the proofs, the matrix and labels it has fitted the meta-learner on.
\<close>

definition train_meta_model ::
  "('m, 'x) learners_scheme \<Rightarrow> 'm \<Rightarrow> (string \<times> real option list) list \<Rightarrow> int list
     \<Rightarrow> error + ('m \<times> string list \<times> matrix \<times> int list)" where
  "train_meta_model api meta0 oof_preds y =
     (case lookup_all oof_preds (sort (map fst oof_preds)) of Inl e \<Rightarrow> Inl e | Inr cols \<Rightarrow>
      case column_stack cols of Inl e \<Rightarrow> Inl e | Inr oof_matrix \<Rightarrow>
      let valid_rows = map (\<lambda>row. \<not> (\<exists>c\<in>set row. c = None)) oof_matrix in
      case mask_rows oof_matrix valid_rows of Inl e \<Rightarrow> Inl e | Inr X_meta \<Rightarrow>
      case mask_rows y valid_rows of Inl e \<Rightarrow> Inl e | Inr y_meta \<Rightarrow>
      case fit api meta0 X_meta y_meta of Inl e \<Rightarrow> Inl e | Inr meta \<Rightarrow>
      Inr (meta, sort (map fst oof_preds), X_meta, y_meta))"


section \<open>Feature table loader\<close>

text \<open>
  A table has a number of rows, the column \<^verbatim>\<open>year\<close> (kept apart, as its keys need only
  be ordered) and its other columns by name, in order. A column of numeric dtype holds
  numbers, with \<open>None\<close> for NaN; a column of dtype \<^verbatim>\<open>object\<close> holds strings or
  numbers, with \<open>None\<close> for a missing value.
\<close>

datatype column = Numeric "real option list" | Object "(string + real) option list"

record 'k dataframe =
  nrows :: nat
  year_col :: "'k year_column"
  columns :: "(string \<times> column) list"

text \<open>
  The conversions of numpy are parameters: \<open>float_of\<close> is Python's \<^verbatim>\<open>float(s)\<close> on a
  string, \<open>astype_int\<close> is \<^verbatim>\<open>.values.astype(int)\<close> on a column.
\<close>

record numpy =
  float_of :: "string \<Rightarrow> error + real option"
  astype_int :: "column \<Rightarrow> error + int list"

definition exclude_cols :: "string list" where
  "exclude_cols =
     [''home_won'', ''game_pk'', ''game_date'', ''year'', ''home_team_id'', ''away_team_id'',
      ''home_team'', ''away_team'', ''home_team_name'', ''away_team_name'', ''season'']"

text \<open>\<^verbatim>\<open>pd.api.types.is_numeric_dtype\<close>\<close>

fun is_numeric_dtype :: "column \<Rightarrow> bool" where
  "is_numeric_dtype (Numeric xs) = True"
| "is_numeric_dtype (Object xs) = False"

text \<open>
  \<^verbatim>\<open>Series.median()\<close>: the median of the values that are present, the mean of the two
  middle ones when their number is even, NaN when there is none.
\<close>

definition median :: "real option list \<Rightarrow> real option" where
  "median xs =
     (let s = sort (dropna xs); n = length s in
      if n = 0 then None
      else if odd n then Some (s ! (n div 2))
      else Some ((s ! (n div 2 - 1) + s ! (n div 2)) / 2))"

text \<open>\<^verbatim>\<open>Series.fillna(fill_val)\<close>; filling with NaN changes nothing.\<close>

fun fillna :: "real option \<Rightarrow> column \<Rightarrow> column" where
  "fillna fill_val (Numeric xs) =
     Numeric (map (\<lambda>c. case c of None \<Rightarrow> fill_val | Some v \<Rightarrow> Some v) xs)"
| "fillna fill_val (Object xs) =
     Object (map (\<lambda>c. case c of None \<Rightarrow> map_option Inr fill_val | Some v \<Rightarrow> Some v) xs)"

text \<open>A loop whose body can raise: it stops at the first exception.\<close>

fun map_err :: "('a \<Rightarrow> error + 'b) \<Rightarrow> 'a list \<Rightarrow> error + 'b list" where
  "map_err f [] = Inr []"
| "map_err f (x # xs) =
     (case f x of Inl e \<Rightarrow> Inl e | Inr v \<Rightarrow>
      case map_err f xs of Inl e \<Rightarrow> Inl e | Inr vs \<Rightarrow> Inr (v # vs))"

text \<open>\<^verbatim>\<open>.astype(float)\<close> on one column\<close>

fun astype_float :: "('x) numpy_scheme \<Rightarrow> column \<Rightarrow> error + real option list" where
  "astype_float np (Numeric xs) = Inr xs"
| "astype_float np (Object xs) =
     map_err (\<lambda>c. case c of None \<Rightarrow> Inr None
                   | Some (Inl s) \<Rightarrow> float_of np s
                   | Some (Inr v) \<Rightarrow> Inr (Some v)) xs"

text \<open>
  The loop \<^verbatim>\<open>for col in self.feature_cols\<close>, the same in \<^verbatim>\<open>select_features\<close> and in
  \<^verbatim>\<open>prepare_data\<close>: it records the median of the training column and fills both
  tables with it. The dictionary \<^verbatim>\<open>fill_values\<close> is an association list in insertion
  order.
\<close>

fun impute ::
  "string list \<Rightarrow> (string \<times> real option) list \<Rightarrow> (string \<times> column) list \<Rightarrow> (string \<times> column) list
     \<Rightarrow> error + ((string \<times> real option) list \<times> (string \<times> column) list \<times> (string \<times> column) list)" where
  "impute [] fills train_cols val_cols = Inr (fills, train_cols, val_cols)"
| "impute (col # cols) fills train_cols val_cols =
     (case map_of train_cols col of
        None \<Rightarrow> Inl (KeyError col)
      | Some (Object xs) \<Rightarrow> Inl TypeError
      | Some (Numeric xs) \<Rightarrow>
          (let fill_val = median xs;
               fills' = AList.update col fill_val fills;
               train_cols' = AList.update col (fillna fill_val (Numeric xs)) train_cols
           in case map_of val_cols col of
                None \<Rightarrow> Inl (KeyError col)
              | Some vc \<Rightarrow>
                  impute cols fills' train_cols' (AList.update col (fillna fill_val vc) val_cols)))"

text \<open>\<^verbatim>\<open>df[cols].values.astype(float)\<close>: one row per row of the table, also when \<open>cols\<close> is empty.\<close>

definition values_float :: "('x) numpy_scheme \<Rightarrow> 'k dataframe \<Rightarrow> string list \<Rightarrow> error + matrix" where
  "values_float np df cols =
     (case map_err (\<lambda>c. case map_of (columns df) c of
                           None \<Rightarrow> Inl (KeyError c)
                         | Some col \<Rightarrow> astype_float np col) cols of
        Inl e \<Rightarrow> Inl e
      | Inr cs \<Rightarrow> Inr (map (\<lambda>i. map (\<lambda>c. c ! i) cs) [0..<nrows df]))"

text \<open>\<^verbatim>\<open>df["home_won"].values.astype(int)\<close>\<close>

definition label_values :: "('x) numpy_scheme \<Rightarrow> 'k dataframe \<Rightarrow> error + int list" where
  "label_values np df =
     (case map_of (columns df) ''home_won'' of
        None \<Rightarrow> Inl (KeyError ''home_won'')
      | Some col \<Rightarrow> astype_int np col)"

text \<open>The attributes of a \<^verbatim>\<open>V4StackedTrainer\<close>; \<^verbatim>\<open>__init__\<close> sets them empty.\<close>

record trainer =
  feature_cols :: "string list"
  fill_values :: "(string \<times> real option) list"

definition init_trainer :: trainer where
  "init_trainer = \<lparr>feature_cols = [], fill_values = []\<rparr>"

text \<open>
  \<^verbatim>\<open>V4StackedTrainer.select_features\<close>. It changes the trainer and both tables in place
  and returns the two matrices and label vectors; the model returns all of them.
\<close>

definition select_features ::
  "('x) numpy_scheme \<Rightarrow> trainer \<Rightarrow> 'k dataframe \<Rightarrow> 'k dataframe
     \<Rightarrow> error + (trainer \<times> 'k dataframe \<times> 'k dataframe \<times> matrix \<times> int list \<times> matrix \<times> int list)" where
  "select_features np self train_df val_df =
     (let numeric_cols = map fst (filter (\<lambda>(c, col). is_numeric_dtype col) (columns train_df));
          features = filter (\<lambda>c. c \<notin> set exclude_cols) numeric_cols
      in case impute features (fill_values self) (columns train_df) (columns val_df) of
           Inl e \<Rightarrow> Inl e
         | Inr (fills, train_cols, val_cols) \<Rightarrow>
             (let self' = self\<lparr>feature_cols := features, fill_values := fills\<rparr>;
                  train_df' = train_df\<lparr>columns := train_cols\<rparr>;
                  val_df' = val_df\<lparr>columns := val_cols\<rparr>
              in case values_float np train_df' features of Inl e \<Rightarrow> Inl e | Inr X_train \<Rightarrow>
                 case label_values np train_df' of Inl e \<Rightarrow> Inl e | Inr y_train \<Rightarrow>
                 case values_float np val_df' features of Inl e \<Rightarrow> Inl e | Inr X_val \<Rightarrow>
                 case label_values np val_df' of Inl e \<Rightarrow> Inl e | Inr y_val \<Rightarrow>
                 Inr (self', train_df', val_df', X_train, y_train, X_val, y_val)))"

text \<open>
  \<^verbatim>\<open>prepare_data\<close> of train_v4_tuned.py, from the two tables it has read: the same
  selection and filling, with a new \<^verbatim>\<open>fill_values\<close> dictionary.
\<close>

definition prepare_data ::
  "('x) numpy_scheme \<Rightarrow> 'k dataframe \<Rightarrow> 'k dataframe
     \<Rightarrow> error + ('k dataframe \<times> matrix \<times> int list \<times> matrix \<times> int list \<times> string list
                  \<times> (string \<times> real option) list)" where
  "prepare_data np train_df val_df =
     (let numeric_cols = map fst (filter (\<lambda>(c, col). is_numeric_dtype col) (columns train_df));
          features = filter (\<lambda>c. c \<notin> set exclude_cols) numeric_cols
      in case impute features [] (columns train_df) (columns val_df) of
           Inl e \<Rightarrow> Inl e
         | Inr (fills, train_cols, val_cols) \<Rightarrow>
             (let train_df' = train_df\<lparr>columns := train_cols\<rparr>;
                  val_df' = val_df\<lparr>columns := val_cols\<rparr>
              in case values_float np train_df' features of Inl e \<Rightarrow> Inl e | Inr X_train \<Rightarrow>
                 case label_values np train_df' of Inl e \<Rightarrow> Inl e | Inr y_train \<Rightarrow>
                 case values_float np val_df' features of Inl e \<Rightarrow> Inl e | Inr X_val \<Rightarrow>
                 case label_values np val_df' of Inl e \<Rightarrow> Inl e | Inr y_val \<Rightarrow>
                 Inr (train_df', X_train, y_train, X_val, y_val, features, fills)))"


section \<open>The stacked training run\<close>

text \<open>
  \<^verbatim>\<open>build_base_models\<close>: the dictionary of the three new estimators, in this order. The
  constructors are library calls, so the new objects are parameters.
\<close>

definition build_base_models :: "'m \<Rightarrow> 'm \<Rightarrow> 'm \<Rightarrow> (string \<times> 'm) list" where
  "build_base_models lr xgb_model lgbm = [(''lr'', lr), (''xgb'', xgb_model), (''lgbm'', lgbm)]"

text \<open>\<^verbatim>\<open>evaluate_single_model\<close>\<close>

definition evaluate_single_model ::
  "('m, 'x) learners_scheme \<Rightarrow> 'm \<Rightarrow> matrix \<Rightarrow> int list \<Rightarrow> error + (real \<times> real)" where
  "evaluate_single_model api model X_val y_val =
     (case predict_proba api model X_val of Inl e \<Rightarrow> Inl e | Inr probs \<Rightarrow>
      let acc = accuracy_score api y_val (threshold probs) in
      case roc_auc_score api y_val probs of Inl e \<Rightarrow> Inl e | Inr auc \<Rightarrow>
      Inr (acc, auc))"

text \<open>
  Line 210 of \<^verbatim>\<open>run\<close>: the matrix whose columns are the base estimators' probabilities
  on the holdout rows, one column per name of \<^verbatim>\<open>meta_order\<close>, in that order.
\<close>

definition val_matrix ::
  "('m, 'x) learners_scheme \<Rightarrow> (string \<times> 'm) list \<Rightarrow> string list \<Rightarrow> matrix
     \<Rightarrow> error + real list list" where
  "val_matrix api models order X_val =
     (case map_err (\<lambda>name. case map_of models name of
                              None \<Rightarrow> Inl (KeyError name)
                            | Some model \<Rightarrow> predict_proba api model X_val) order of
        Inl e \<Rightarrow> Inl e
      | Inr cols \<Rightarrow> column_stack cols)"

record metrics =
  stacked :: "real \<times> real"
  base :: "(string \<times> real \<times> real) list"

text \<open>
  The dictionary that \<^verbatim>\<open>run\<close> pickles. Its fields \<^verbatim>\<open>timestamp\<close>, \<^verbatim>\<open>train_years\<close> and
  \<^verbatim>\<open>val_year\<close> are metadata computed after the evaluation; they are left out.
\<close>

record 'm artifact =
  base_models :: "(string \<times> 'm) list"
  meta_model :: "'m"
  meta_order :: "string list"
  artifact_feature_cols :: "string list"
  artifact_fill_values :: "(string \<times> real option) list"
  artifact_metrics :: metrics

text \<open>
  \<^verbatim>\<open>V4StackedTrainer.run\<close>, from the two tables that \<^verbatim>\<open>load_data\<close> has read to the
  artifact; \<open>lr\<close>, \<open>xgb_model\<close>, \<open>lgbm\<close> and \<open>meta0\<close> are the new estimator objects.
\<close>

definition run ::
  "('y) numpy_scheme \<Rightarrow> ('m, 'x) learners_scheme \<Rightarrow> 'm \<Rightarrow> 'm \<Rightarrow> 'm \<Rightarrow> 'm \<Rightarrow> trainer
     \<Rightarrow> 'k::linorder dataframe \<Rightarrow> 'k dataframe \<Rightarrow> error + 'm artifact" where
  "run np api lr xgb_model lgbm meta0 self train_df0 val_df0 =
     (case select_features np self train_df0 val_df0 of
        Inl e \<Rightarrow> Inl e
      | Inr (self', train_df, val_df, X_train, y_train, X_val, y_val) \<Rightarrow>
     (case get_oof_predictions api X_train y_train (year_col train_df)
             (build_base_models lr xgb_model lgbm) of
        Inl e \<Rightarrow> Inl e
      | Inr (models1, oof_preds) \<Rightarrow>
     (case train_meta_model api meta0 oof_preds y_train of
        Inl e \<Rightarrow> Inl e
      | Inr (meta, order, X_meta, y_meta) \<Rightarrow>
     (case map_err (\<lambda>(name, model). case fit api model X_train y_train of
                                       Inl e \<Rightarrow> Inl e
                                     | Inr model' \<Rightarrow> Inr (name, model')) models1 of
        Inl e \<Rightarrow> Inl e
      | Inr models2 \<Rightarrow>
     (case map_err (\<lambda>(name, model). case evaluate_single_model api model X_val y_val of
                                       Inl e \<Rightarrow> Inl e
                                     | Inr (acc, auc) \<Rightarrow> Inr (name, acc, auc)) models2 of
        Inl e \<Rightarrow> Inl e
      | Inr base_metrics \<Rightarrow>
     (case val_matrix api models2 order X_val of
        Inl e \<Rightarrow> Inl e
      | Inr vm \<Rightarrow>
     (case predict_proba api meta (map (map Some) vm) of
        Inl e \<Rightarrow> Inl e
      | Inr stacked_probs \<Rightarrow>
     (let stacked_acc = accuracy_score api y_val (threshold stacked_probs) in
      case roc_auc_score api y_val stacked_probs of
        Inl e \<Rightarrow> Inl e
      | Inr stacked_auc \<Rightarrow>
          Inr \<lparr>base_models = models2, meta_model = meta, meta_order = order,
               artifact_feature_cols = feature_cols self',
               artifact_fill_values = fill_values self',
               artifact_metrics = \<lparr>stacked = (stacked_acc, stacked_auc),
                                    base = base_metrics\<rparr>\<rparr>))))))))"


section \<open>The game predictor\<close>










section \<open>Hyperparameter tuner\<close>

text \<open>
  Lines 80 to 83 of \<^verbatim>\<open>cv_score_auc\<close> (and 95 to 98 of \<^verbatim>\<open>cv_score_accuracy\<close>): the folds of
  the module's \<^verbatim>\<open>time_folds\<close>, or those of \<^verbatim>\<open>StratifiedKFold(n_splits=5, shuffle=True,
  random_state=42)\<close>.
\<close>

definition select_folds_tuned ::
  "('m, 'x) learners_scheme \<Rightarrow> matrix \<Rightarrow> int list \<Rightarrow> 'k::linorder year_column
     \<Rightarrow> error + (nat list \<times> nat list) list" where
  "select_folds_tuned api X y df_year =
     (case time_folds_tuned df_year of
        None \<Rightarrow> stratified_kfold api 5 True 42 X y
      | Some folds \<Rightarrow> Inr folds)"

text \<open>
  The loop of \<^verbatim>\<open>cv_score_auc\<close>. \<open>model_builder\<close> is the new estimator that the call
  \<^verbatim>\<open>model_builder()\<close> returns. Nothing catches an exception of \<^verbatim>\<open>fit\<close>,
  \<^verbatim>\<open>predict_proba\<close> or \<^verbatim>\<open>roc_auc_score\<close>.
\<close>

fun auc_loop ::
  "('m, 'x) learners_scheme \<Rightarrow> 'm \<Rightarrow> matrix \<Rightarrow> int list \<Rightarrow> (nat list \<times> nat list) list
     \<Rightarrow> error + real list" where
  "auc_loop api model_builder X y [] = Inr []"
| "auc_loop api model_builder X y ((train_idx, val_idx) # folds) =
     (case take_rows X train_idx of Inl e \<Rightarrow> Inl e | Inr X_tr \<Rightarrow>
     (case take_rows y train_idx of Inl e \<Rightarrow> Inl e | Inr y_tr \<Rightarrow>
     (case fit api model_builder X_tr y_tr of Inl e \<Rightarrow> Inl e | Inr model \<Rightarrow>
     (case take_rows X val_idx of Inl e \<Rightarrow> Inl e | Inr X_va \<Rightarrow>
     (case predict_proba api model X_va of Inl e \<Rightarrow> Inl e | Inr probs \<Rightarrow>
     (case take_rows y val_idx of Inl e \<Rightarrow> Inl e | Inr y_va \<Rightarrow>
     (case roc_auc_score api y_va probs of Inl e \<Rightarrow> Inl e | Inr auc \<Rightarrow>
     (case auc_loop api model_builder X y folds of Inl e \<Rightarrow> Inl e | Inr aucs \<Rightarrow>
        Inr (auc # aucs)))))))))"

text \<open>\<^verbatim>\<open>float(np.mean(xs))\<close>: NaN, here \<open>None\<close>, for an empty list.\<close>

definition np_mean :: "real list \<Rightarrow> real option" where
  "np_mean xs = (if xs = [] then None else Some (sum_list xs / real (length xs)))"

definition cv_score_auc ::
  "('m, 'x) learners_scheme \<Rightarrow> 'm \<Rightarrow> matrix \<Rightarrow> int list \<Rightarrow> 'k::linorder year_column
     \<Rightarrow> error + real option" where
  "cv_score_auc api model_builder X y df_year =
     (case select_folds_tuned api X y df_year of Inl e \<Rightarrow> Inl e | Inr folds \<Rightarrow>
     (case auc_loop api model_builder X y folds of Inl e \<Rightarrow> Inl e | Inr aucs \<Rightarrow>
        Inr (np_mean aucs)))"

text \<open>The loop of \<^verbatim>\<open>cv_score_accuracy\<close>.\<close>

fun acc_loop ::
  "('m, 'x) learners_scheme \<Rightarrow> 'm \<Rightarrow> matrix \<Rightarrow> int list \<Rightarrow> (nat list \<times> nat list) list
     \<Rightarrow> error + real list" where
  "acc_loop api model_builder X y [] = Inr []"
| "acc_loop api model_builder X y ((train_idx, val_idx) # folds) =
     (case take_rows X train_idx of Inl e \<Rightarrow> Inl e | Inr X_tr \<Rightarrow>
     (case take_rows y train_idx of Inl e \<Rightarrow> Inl e | Inr y_tr \<Rightarrow>
     (case fit api model_builder X_tr y_tr of Inl e \<Rightarrow> Inl e | Inr model \<Rightarrow>
     (case take_rows X val_idx of Inl e \<Rightarrow> Inl e | Inr X_va \<Rightarrow>
     (case predict api model X_va of Inl e \<Rightarrow> Inl e | Inr preds \<Rightarrow>
     (case take_rows y val_idx of Inl e \<Rightarrow> Inl e | Inr y_va \<Rightarrow>
     (case acc_loop api model_builder X y folds of Inl e \<Rightarrow> Inl e | Inr accs \<Rightarrow>
        Inr (accuracy_score api y_va preds # accs))))))))"

definition cv_score_accuracy ::
  "('m, 'x) learners_scheme \<Rightarrow> 'm \<Rightarrow> matrix \<Rightarrow> int list \<Rightarrow> 'k::linorder year_column
     \<Rightarrow> error + real option" where
  "cv_score_accuracy api model_builder X y df_year =
     (case select_folds_tuned api X y df_year of Inl e \<Rightarrow> Inl e | Inr folds \<Rightarrow>
     (case acc_loop api model_builder X y folds of Inl e \<Rightarrow> Inl e | Inr accs \<Rightarrow>
        Inr (np_mean accs)))"

subsection \<open>The search of optuna\<close>

text \<open>
  A configuration gives each parameter name its value. The calls \<^verbatim>\<open>trial.suggest_int\<close>
  and \<^verbatim>\<open>trial.suggest_float\<close> of an objective are listed, in order, as a search space:
  each name with its range (and the \<^verbatim>\<open>log\<close> flag of a float).
\<close>

datatype pvalue = PInt int | PFloat real | PStr string

datatype dist = IntDist int int | FloatDist real real bool

type_synonym params = "(string \<times> pvalue) list"

datatype trial_state = Complete real | Failed

type_synonym trial = "params \<times> trial_state"

text \<open>
  optuna is library code. Its sampler is a parameter: from its state (its random
  generator), the trials recorded so far and the name and range of a parameter it gives
  a value and its next state. \<^verbatim>\<open>optuna.create_study(direction="maximize")\<close> is given no
  sampler and no seed, so optuna creates its default sampler with \<^verbatim>\<open>seed=None\<close>, whose
  generator starts from the entropy of the operating system: the initial state is an
  input of a tuning run, which the code does not choose.
\<close>

type_synonym 's sampler = "'s \<Rightarrow> trial list \<Rightarrow> string \<Rightarrow> dist \<Rightarrow> pvalue \<times> 's"

fun suggest_all :: "'s sampler \<Rightarrow> trial list \<Rightarrow> (string \<times> dist) list \<Rightarrow> 's \<Rightarrow> params \<times> 's" where
  "suggest_all sampler trials [] s = ([], s)"
| "suggest_all sampler trials ((name, d) # space) s =
     (case sampler s trials name d of (v, s') \<Rightarrow>
      case suggest_all sampler trials space s' of (rest, s'') \<Rightarrow> ((name, v) # rest, s''))"

text \<open>
  \<^verbatim>\<open>study.optimize(objective, n_trials=n_trials)\<close> with its other arguments at their
  defaults, as optuna documents it: the trials run one after the other; with the default
  \<^verbatim>\<open>catch=()\<close> an exception of the objective ends \<^verbatim>\<open>optimize\<close> and is raised to the
  caller; an objective value NaN marks the trial as failed and the study goes on. The
  study is the sampler's state and the list of its trials.
\<close>

fun optimize ::
  "'s sampler \<Rightarrow> (string \<times> dist) list \<Rightarrow> (params \<Rightarrow> error + real option) \<Rightarrow> nat
     \<Rightarrow> 's \<times> trial list \<Rightarrow> error + ('s \<times> trial list)" where
  "optimize sampler space objective 0 study = Inr study"
| "optimize sampler space objective (Suc n) (s, trials) =
     (case suggest_all sampler trials space s of (config, s') \<Rightarrow>
      case objective config of
        Inl e \<Rightarrow> Inl e
      | Inr None \<Rightarrow> optimize sampler space objective n (s', trials @ [(config, Failed)])
      | Inr (Some v) \<Rightarrow> optimize sampler space objective n (s', trials @ [(config, Complete v)]))"

text \<open>
  \<^verbatim>\<open>study.best_params\<close> for the direction \<^verbatim>\<open>maximize\<close>: the configuration of the completed
  trial with the greatest value, the earliest one among equal values; a ValueError when
  no trial is complete.
\<close>

fun best_trial :: "trial list \<Rightarrow> (params \<times> real) option \<Rightarrow> (params \<times> real) option" where
  "best_trial [] best = best"
| "best_trial ((config, Failed) # trials) best = best_trial trials best"
| "best_trial ((config, Complete v) # trials) best =
     (case best of
        None \<Rightarrow> best_trial trials (Some (config, v))
      | Some (c, w) \<Rightarrow> if w < v then best_trial trials (Some (config, v))
                      else best_trial trials best)"

definition best_params :: "trial list \<Rightarrow> error + params" where
  "best_params trials =
     (case best_trial trials None of None \<Rightarrow> Inl ValueError | Some (config, v) \<Rightarrow> Inr config)"

subsection \<open>The two tuning functions\<close>

definition xgb_space :: "(string \<times> dist) list" where
  "xgb_space =
     [(''n_estimators'', IntDist 200 800),
      (''max_depth'', IntDist 3 8),
      (''learning_rate'', FloatDist (1 / 100) (2 / 10) True),
      (''subsample'', FloatDist (6 / 10) 1 False),
      (''colsample_bytree'', FloatDist (6 / 10) 1 False),
      (''min_child_weight'', IntDist 1 8),
      (''reg_lambda'', FloatDist (1 / 10) 10 True),
      (''reg_alpha'', FloatDist 0 5 False)]"

definition lgbm_space :: "(string \<times> dist) list" where
  "lgbm_space =
     [(''n_estimators'', IntDist 200 800),
      (''learning_rate'', FloatDist (1 / 100) (2 / 10) True),
      (''num_leaves'', IntDist 16 64),
      (''min_child_samples'', IntDist 20 80),
      (''subsample'', FloatDist (6 / 10) 1 False),
      (''colsample_bytree'', FloatDist (6 / 10) 1 False),
      (''reg_lambda'', FloatDist (1 / 10) 10 True)]"

text \<open>
  The objective of \<^verbatim>\<open>tune_xgb\<close>, after its calls of \<^verbatim>\<open>trial.suggest\<close>; \<open>xgb_classifier\<close>
  is the constructor \<^verbatim>\<open>xgb.XGBClassifier(**params)\<close>.
\<close>

definition objective_xgb ::
  "('m, 'x) learners_scheme \<Rightarrow> (params \<Rightarrow> 'm) \<Rightarrow> 'k::linorder year_column \<Rightarrow> matrix \<Rightarrow> int list
     \<Rightarrow> string \<Rightarrow> params \<Rightarrow> error + real option" where
  "objective_xgb api xgb_classifier df_year X y metric config =
     (let builder = xgb_classifier
            (config @ [(''eval_metric'', PStr ''auc''), (''random_state'', PInt 42)])
      in if metric = ''accuracy'' then cv_score_accuracy api builder X y df_year
         else cv_score_auc api builder X y df_year)"

text \<open>\<^verbatim>\<open>tune_xgb\<close>; \<open>s0\<close> is the state in which the study's sampler starts.\<close>

definition tune_xgb ::
  "('m, 'x) learners_scheme \<Rightarrow> 's sampler \<Rightarrow> 's \<Rightarrow> (params \<Rightarrow> 'm) \<Rightarrow> 'k::linorder year_column
     \<Rightarrow> matrix \<Rightarrow> int list \<Rightarrow> nat \<Rightarrow> string \<Rightarrow> error + params" where
  "tune_xgb api sampler s0 xgb_classifier df_year X y n_trials metric =
     (case optimize sampler xgb_space (objective_xgb api xgb_classifier df_year X y metric)
             n_trials (s0, []) of
        Inl e \<Rightarrow> Inl e
      | Inr (s, trials) \<Rightarrow> best_params trials)"

text \<open>The objective of \<^verbatim>\<open>tune_lgbm\<close>; \<open>lgbm_classifier\<close> is \<^verbatim>\<open>lgb.LGBMClassifier(**params)\<close>.\<close>

definition objective_lgbm ::
  "('m, 'x) learners_scheme \<Rightarrow> (params \<Rightarrow> 'm) \<Rightarrow> 'k::linorder year_column \<Rightarrow> matrix \<Rightarrow> int list
     \<Rightarrow> string \<Rightarrow> params \<Rightarrow> error + real option" where
  "objective_lgbm api lgbm_classifier df_year X y metric config =
     (let builder = lgbm_classifier (config @ [(''random_state'', PInt 42)])
      in if metric = ''accuracy'' then cv_score_accuracy api builder X y df_year
         else cv_score_auc api builder X y df_year)"

definition tune_lgbm ::
  "('m, 'x) learners_scheme \<Rightarrow> 's sampler \<Rightarrow> 's \<Rightarrow> (params \<Rightarrow> 'm) \<Rightarrow> 'k::linorder year_column
     \<Rightarrow> matrix \<Rightarrow> int list \<Rightarrow> nat \<Rightarrow> string \<Rightarrow> error + params" where
  "tune_lgbm api sampler s0 lgbm_classifier df_year X y n_trials metric =
     (case optimize sampler lgbm_space (objective_lgbm api lgbm_classifier df_year X y metric)
             n_trials (s0, []) of
        Inl e \<Rightarrow> Inl e
      | Inr (s, trials) \<Rightarrow> best_params trials)"


section \<open>Auxiliary notions for the statements\<close>

text \<open>
  \<open>filled_by V c c'\<close>: the array \<open>c'\<close> is \<open>c\<close> with the cells at the indices in \<open>V\<close>
  set to some value and no other cell changed from unset to set or back.
\<close>

definition filled_by :: "nat set \<Rightarrow> real option list \<Rightarrow> real option list \<Rightarrow> bool" where
  "filled_by V c c' \<longleftrightarrow>
     length c' = length c \<and> (\<forall>i<length c. (c' ! i = None) = (c ! i = None \<and> i \<notin> V))"


text \<open>
  A stand-in for the libraries, to run the model on examples: an estimator is the number
  of rows it was last fitted on, it predicts \<open>1/2\<close> for every row, the metrics are
  constant, and the k-fold split puts row \<open>i\<close> in the validation part of fold
  \<open>i mod n_splits\<close>.
\<close>

definition stub_learners :: "nat learners" where
  "stub_learners =
     \<lparr>fit = (\<lambda>m X y. Inr (length X)),
      predict_proba = (\<lambda>m X. Inr (map (\<lambda>row. 1 / 2) X)),
      predict = (\<lambda>m X. Inr (map (\<lambda>row. 1) X)),
      roc_auc_score = (\<lambda>y probs. Inr (1 / 2)),
      accuracy_score = (\<lambda>y preds. 1 / 2),
      stratified_kfold = (\<lambda>n_splits shuffle random_state X y.
        Inr (map (\<lambda>j. (filter (\<lambda>i. i mod n_splits \<noteq> j) [0..<length X],
                         filter (\<lambda>i. i mod n_splits = j) [0..<length X])) [0..<n_splits]))\<rparr>"

text \<open>
  A stand-in for the conversions of numpy: no string converts to a float, and a numeric
  label column converts cell by cell, a number to its integer part and NaN to 0.
\<close>

definition stub_numpy :: numpy where
  "stub_numpy =
     \<lparr>float_of = (\<lambda>s. Inl ValueError),
      astype_int = (\<lambda>col. case col of
          Numeric xs \<Rightarrow> Inr (map (\<lambda>c. case c of None \<Rightarrow> 0 | Some v \<Rightarrow> \<lfloor>v\<rfloor>) xs)
        | Object xs \<Rightarrow> Inl ValueError)\<rparr>"

text \<open>A table is well formed when each of its columns has as many cells as it has rows.\<close>

definition column_length :: "column \<Rightarrow> nat" where
  "column_length c = (case c of Numeric xs \<Rightarrow> length xs | Object xs \<Rightarrow> length xs)"

definition wf_df :: "'k dataframe \<Rightarrow> bool" where
  "wf_df df \<longleftrightarrow> list_all (\<lambda>(name, c). column_length c = nrows df) (columns df)"


text \<open>
  Two small tables to run the model on: seven history rows over the years 2015 to 2019,
  one of them without a year, and two holdout rows of 2025. The feature \<^verbatim>\<open>elo\<close> has
  missing values in both.
\<close>

definition example_train :: "int dataframe" where
  "example_train =
     \<lparr>nrows = 7,
      year_col = Some [Some 2015, Some 2016, Some 2017, Some 2018, None, Some 2019, Some 2018],
      columns =
        [(''game_pk'', Numeric [Some 1, Some 2, Some 3, Some 4, Some 5, Some 6, Some 7]),
         (''home_team'', Object [Some (Inl ''NYY''), Some (Inl ''BOS''), None, Some (Inl ''NYY''),
                                 Some (Inl ''BOS''), Some (Inl ''NYY''), Some (Inl ''BOS'')]),
         (''elo'', Numeric [Some 3, None, Some 1, Some 5, Some 2, None, Some 4]),
         (''home_won'', Numeric [Some 1, Some 0, Some 1, Some 0, Some 1, Some 0, Some 1])]\<rparr>"

definition example_val :: "int dataframe" where
  "example_val =
     \<lparr>nrows = 2,
      year_col = Some [Some 2025, Some 2025],
      columns =
        [(''game_pk'', Numeric [Some 8, Some 9]),
         (''home_team'', Object [Some (Inl ''NYY''), None]),
         (''elo'', Numeric [None, Some 7]),
         (''home_won'', Numeric [Some 1, Some 0])]\<rparr>"


text \<open>
  Stand-ins to run a search on examples. The sampler's state is a counter: an integer
  parameter gets the counter's value folded into its range, a float its lower bound. The
  constructor's estimator is its number of trees, and \<open>failing_learners\<close> is
  \<open>stub_learners\<close> with a \<open>fit\<close> that raises for 208 trees.
\<close>

definition stub_sampler :: "nat sampler" where
  "stub_sampler s trials name d =
     (case d of
        IntDist low high \<Rightarrow> (PInt (low + int s mod (high - low + 1)), Suc s)
      | FloatDist low high lg \<Rightarrow> (PFloat low, Suc s))"

definition stub_classifier :: "params \<Rightarrow> nat" where
  "stub_classifier config =
     (case map_of config ''n_estimators'' of Some (PInt n) \<Rightarrow> nat n | _ \<Rightarrow> 0)"

definition failing_learners :: "nat learners" where
  "failing_learners =
     stub_learners\<lparr>fit := (\<lambda>m X y. if m = 208 then Inl (LibraryError ''fit'') else Inr m)\<rparr>"


text \<open>The feature matrix, the labels and the years of seven history rows, for the searches.\<close>

definition example_matrix :: matrix where
  "example_matrix = [[Some 3], [Some 3], [Some 1], [Some 5], [Some 2], [Some 3], [Some 4]]"

definition example_labels :: "int list" where
  "example_labels = [1, 0, 1, 0, 1, 0, 1]"

definition example_years :: "int year_column" where
  "example_years = Some [Some 2015, Some 2016, Some 2017, Some 2018, None, Some 2019, Some 2018]"


text \<open>The configurations that \<open>stub_sampler\<close> proposes, up to their three integer values.\<close>

definition stub_xgb_config :: "int \<Rightarrow> int \<Rightarrow> int \<Rightarrow> params" where
  "stub_xgb_config n d w =
     [(''n_estimators'', PInt n), (''max_depth'', PInt d),
      (''learning_rate'', PFloat (1 / 100)), (''subsample'', PFloat (6 / 10)),
      (''colsample_bytree'', PFloat (6 / 10)), (''min_child_weight'', PInt w),
      (''reg_lambda'', PFloat (1 / 10)), (''reg_alpha'', PFloat 0)]"

definition stub_lgbm_config :: "int \<Rightarrow> int \<Rightarrow> int \<Rightarrow> params" where
  "stub_lgbm_config n l c =
     [(''n_estimators'', PInt n), (''learning_rate'', PFloat (1 / 100)),
      (''num_leaves'', PInt l), (''min_child_samples'', PInt c),
      (''subsample'', PFloat (6 / 10)), (''colsample_bytree'', PFloat (6 / 10)),
      (''reg_lambda'', PFloat (1 / 10))]"


section \<open>Properties of the fold generator\<close>

lemma dropna_set: "set (dropna col) = {k. Some k \<in> set col}"
  by (force simp: dropna_def List.map_filter_def)

lemma index_where_mem:
  "i \<in> set (index_where p col) \<longleftrightarrow> i < length col \<and> (\<exists>k. col ! i = Some k \<and> p k)"
  by (auto simp: index_where_def split: option.splits)

lemma index_where_distinct: "distinct (index_where p col)"
  by (simp add: index_where_def)

lemma fold_loop_mem:
  "(tr, va, y) \<in> set (fold_loop col ys) \<longleftrightarrow>
     y \<in> set ys \<and> tr = index_where (\<lambda>k. k < y) col \<and> va = index_where (\<lambda>k. k = y) col
     \<and> tr \<noteq> [] \<and> va \<noteq> []"
  by (induction ys) (auto simp: Let_def)

lemma fold_loop_tuned_eq:
  "fold_loop_tuned col ys = map (\<lambda>(tr, va, y). (tr, va)) (fold_loop col ys)"
  by (induction ys) (auto simp: Let_def)

lemma time_folds_tuned_eq:
  "time_folds_tuned c = map_option (map (\<lambda>(tr, va, y). (tr, va))) (time_folds c)"
  by (auto simp: time_folds_tuned_def time_folds_def Let_def fold_loop_tuned_eq
      split: option.splits)

lemma time_folds_SomeD:
  "time_folds (Some col) = Some folds \<Longrightarrow>
     5 \<le> length (sort (remdups (dropna col))) \<and>
     folds = fold_loop col (drop 3 (sort (remdups (dropna col))))"
  by (auto simp: time_folds_def Let_def split: if_splits)

text \<open>
  Claim C1. In time-based mode every fold that \<^verbatim>\<open>time_folds\<close> emits (in both training
  scripts) has a non-empty validate-index set whose rows all carry the fold's held-out
  year, and every row of its train-index set carries a year strictly smaller than that
  year: each validate row's year is strictly greater than each train row's year.
\<close>

theorem time_folds_no_leakage:
  "(time_folds (Some col) = Some folds \<and> (train_idx, val_idx, year) \<in> set folds \<longrightarrow>
      val_idx \<noteq> [] \<and> (\<forall>i\<in>set val_idx. col ! i = Some year) \<and>
      (\<forall>j\<in>set train_idx. \<exists>k. col ! j = Some k \<and> k < year)) \<and>
   (time_folds_tuned (Some col) = Some folds' \<and> (train_idx', val_idx') \<in> set folds' \<longrightarrow>
      (\<exists>year'. val_idx' \<noteq> [] \<and> (\<forall>i\<in>set val_idx'. col ! i = Some year') \<and>
         (\<forall>j\<in>set train_idx'. \<exists>k. col ! j = Some k \<and> k < year')))"
proof (intro conjI impI)
  assume a: "time_folds (Some col) = Some folds \<and> (train_idx, val_idx, year) \<in> set folds"
  then have "(train_idx, val_idx, year) \<in> set (fold_loop col (drop 3 (sort (remdups (dropna col)))))"
    using time_folds_SomeD by blast
  then show "val_idx \<noteq> []" "\<forall>i\<in>set val_idx. col ! i = Some year"
    "\<forall>j\<in>set train_idx. \<exists>k. col ! j = Some k \<and> k < year"
    by (auto simp: fold_loop_mem index_where_mem)
next
  assume a: "time_folds_tuned (Some col) = Some folds' \<and> (train_idx', val_idx') \<in> set folds'"
  then obtain folds0 where f0: "time_folds (Some col) = Some folds0"
    and "folds' = map (\<lambda>(tr, va, y). (tr, va)) folds0"
    by (auto simp: time_folds_tuned_eq)
  with a obtain y where "(train_idx', val_idx', y) \<in> set folds0" by auto
  with f0 have "(train_idx', val_idx', y) \<in> set (fold_loop col (drop 3 (sort (remdups (dropna col)))))"
    using time_folds_SomeD by blast
  then have "val_idx' \<noteq> [] \<and> (\<forall>i\<in>set val_idx'. col ! i = Some y) \<and>
         (\<forall>j\<in>set train_idx'. \<exists>k. col ! j = Some k \<and> k < y)"
    by (auto simp: fold_loop_mem index_where_mem)
  then show "\<exists>year'. val_idx' \<noteq> [] \<and> (\<forall>i\<in>set val_idx'. col ! i = Some year') \<and>
         (\<forall>j\<in>set train_idx'. \<exists>k. col ! j = Some k \<and> k < year')" by blast
qed

text \<open>
  The theorem at a table of seven rows, years 2015 to 2019 with one missing year and a
  repeated 2018: the fold of 2018 validates on rows 3 and 6 and trains on rows 0, 1, 2.
\<close>

theorem time_folds_no_leakage_witness:
  "time_folds (Some [Some (2015::int), Some 2016, Some 2017, Some 2018, None, Some 2019, Some 2018])
     = Some [([0, 1, 2], [3, 6], 2018), ([0, 1, 2, 3, 6], [5], 2019)] \<and>
   time_folds_tuned (Some [Some (2015::int), Some 2016, Some 2017, Some 2018, None, Some 2019, Some 2018])
     = Some [([0, 1, 2], [3, 6]), ([0, 1, 2, 3, 6], [5])] \<and>
   [Some (2015::int), Some 2016, Some 2017, Some 2018, None, Some 2019, Some 2018] ! 6 = Some 2018 \<and>
   (\<exists>k. [Some (2015::int), Some 2016, Some 2017, Some 2018, None, Some 2019, Some 2018] ! 2
      = Some k \<and> k < 2018)"
proof -
  let ?col = "[Some (2015::int), Some 2016, Some 2017, Some 2018, None, Some 2019, Some 2018]"
  have h1: "time_folds (Some ?col) = Some [([0, 1, 2], [3, 6], 2018), ([0, 1, 2, 3, 6], [5], 2019)]"
    by code_simp
  have h2: "time_folds_tuned (Some ?col) = Some [([0, 1, 2], [3, 6]), ([0, 1, 2, 3, 6], [5])]"
    by code_simp
  have m1: "([0, 1, 2], [3, 6], 2018) \<in> set [([0, 1, 2], [3, 6], 2018::int), ([0, 1, 2, 3, 6], [5], 2019)]"
    by simp
  have m2: "([0, 1, 2], [3, 6]) \<in> set [([0, 1, 2], [3, 6]), ([0, 1, 2, 3, 6], [5::nat])]"
    by simp
  have m3: "(6::nat) \<in> set [3, 6]" "(2::nat) \<in> set [0, 1, 2]"
    by simp_all
  from time_folds_no_leakage [of ?col "[([0, 1, 2], [3, 6], 2018), ([0, 1, 2, 3, 6], [5], 2019)]"
      "[0, 1, 2]" "[3, 6]" 2018 "[([0, 1, 2], [3, 6]), ([0, 1, 2, 3, 6], [5])]" "[0, 1, 2]" "[3, 6]"]
    h1 h2 m1 m2 m3
  show ?thesis by blast
qed

subsection \<open>Coverage of the time-based folds\<close>

lemma years_props:
  "sorted (sort (remdups (dropna col)))" "distinct (sort (remdups (dropna col)))"
  "set (sort (remdups (dropna col))) = {k. Some k \<in> set col}"
  by (simp_all add: dropna_set)

lemma drop_mem_sorted:
  assumes "sorted ys" "distinct ys" "n < length ys"
  shows "k \<in> set (drop n ys) \<longleftrightarrow> k \<in> set ys \<and> ys ! n \<le> k"
proof
  assume "k \<in> set (drop n ys)"
  then obtain j where j: "j < length (drop n ys)" "drop n ys ! j = k"
    by (auto simp: in_set_conv_nth)
  then have "k = ys ! (n + j)" "n + j < length ys" by auto
  with assms show "k \<in> set ys \<and> ys ! n \<le> k"
    by (auto simp: sorted_nth_mono)
next
  assume a: "k \<in> set ys \<and> ys ! n \<le> k"
  then obtain j where j: "j < length ys" "ys ! j = k" by (auto simp: in_set_conv_nth)
  have "n \<le> j"
  proof (rule ccontr)
    assume "\<not> n \<le> j"
    then have "j < n" by simp
    with assms j have "ys ! j \<le> ys ! n" by (auto simp: sorted_nth_mono)
    with a j have "ys ! j = ys ! n" by simp
    with assms j \<open>j < n\<close> show False by (auto simp: nth_eq_iff_index_eq)
  qed
  with j show "k \<in> set (drop n ys)"
    by (auto simp: in_set_conv_nth intro!: exI[of _ "j - n"])
qed

lemma fold_loop_all:
  "(\<forall>y\<in>set ys. index_where (\<lambda>k. k < y) col \<noteq> [] \<and> index_where (\<lambda>k. k = y) col \<noteq> []) \<Longrightarrow>
   fold_loop col ys = map (\<lambda>y. (index_where (\<lambda>k. k < y) col, index_where (\<lambda>k. k = y) col, y)) ys"
  by (induction ys) (auto simp: Let_def)

lemma index_where_nonempty:
  "index_where p col \<noteq> [] \<longleftrightarrow> (\<exists>k. Some k \<in> set col \<and> p k)"
proof -
  have "index_where p col \<noteq> [] \<longleftrightarrow> (\<exists>i. i \<in> set (index_where p col))"
    by (cases "index_where p col") auto
  also have "\<dots> \<longleftrightarrow> (\<exists>i k. i < length col \<and> col ! i = Some k \<and> p k)"
    unfolding index_where_mem by blast
  also have "\<dots> \<longleftrightarrow> (\<exists>k. Some k \<in> set col \<and> p k)"
    unfolding in_set_conv_nth by blast
  finally show ?thesis .
qed

lemma fold_years_emit:
  assumes "5 \<le> length (sort (remdups (dropna col)))"
    and "y \<in> set (drop 3 (sort (remdups (dropna col))))"
  shows "index_where (\<lambda>k. k < y) col \<noteq> [] \<and> index_where (\<lambda>k. k = y) col \<noteq> []"
proof -
  let ?ys = "sort (remdups (dropna col))"
  have s: "sorted ?ys" "distinct ?ys" and st: "set ?ys = {k. Some k \<in> set col}"
    by (simp_all add: dropna_set)
  from assms have y: "y \<in> set ?ys" "?ys ! 3 \<le> y"
    using drop_mem_sorted[OF s, of 3 y] by auto
  have "?ys ! 0 \<le> ?ys ! 3" using s assms(1) by (auto simp: sorted_nth_mono)
  moreover have "?ys ! 0 \<noteq> ?ys ! 3"
  proof -
    have "0 < length ?ys" "3 < length ?ys" using assms(1) by linarith+
    from nth_eq_iff_index_eq[OF s(2) this] show ?thesis by simp
  qed
  ultimately have lt: "?ys ! 0 < y" using y by simp
  have "0 < length ?ys" using assms(1) by linarith
  then have "?ys ! 0 \<in> set ?ys" by (rule nth_mem)
  with st have "Some (?ys ! 0) \<in> set col" by blast
  with lt have "index_where (\<lambda>k. k < y) col \<noteq> []" unfolding index_where_nonempty by blast
  moreover from y st have "Some y \<in> set col" by blast
  then have "index_where (\<lambda>k. k = y) col \<noteq> []" unfolding index_where_nonempty by blast
  ultimately show ?thesis by simp
qed

lemma time_folds_explicit:
  assumes "time_folds (Some col) = Some folds"
  shows "folds = map (\<lambda>y. (index_where (\<lambda>k. k < y) col, index_where (\<lambda>k. k = y) col, y))
                   (drop 3 (sort (remdups (dropna col))))"
proof -
  from time_folds_SomeD[OF assms] have l: "5 \<le> length (sort (remdups (dropna col)))"
    and f: "folds = fold_loop col (drop 3 (sort (remdups (dropna col))))" by auto
  show ?thesis unfolding f
    by (rule fold_loop_all) (use fold_years_emit[OF l] in blast)
qed

lemma count_once:
  "distinct ys \<Longrightarrow> length (filter (\<lambda>y. y = k) ys) = (if k \<in> set ys then 1 else 0)"
  by (induction ys) auto

lemma validate_count:
  assumes "time_folds (Some col) = Some folds" "i < length col"
  shows "length (filter (\<lambda>(tr, va, y). i \<in> set va) folds) =
     (case col ! i of None \<Rightarrow> 0
      | Some k \<Rightarrow> if sort (remdups (dropna col)) ! 3 \<le> k then 1 else 0)"
proof -
  let ?ys = "sort (remdups (dropna col))"
  have s: "sorted ?ys" "distinct ?ys" and st: "set ?ys = {k. Some k \<in> set col}"
    by (simp_all add: dropna_set)
  from time_folds_SomeD[OF assms(1)] have l: "5 \<le> length ?ys" by simp
  have d: "distinct (drop 3 ?ys)" using s by simp
  have e: "filter (\<lambda>(tr, va, y). i \<in> set va) folds =
     map (\<lambda>y. (index_where (\<lambda>k. k < y) col, index_where (\<lambda>k. k = y) col, y))
       (filter (\<lambda>y. col ! i = Some y) (drop 3 ?ys))"
    unfolding time_folds_explicit[OF assms(1)] filter_map
    using assms(2) by (simp add: comp_def index_where_mem)
  show ?thesis
  proof (cases "col ! i")
    case None
    then show ?thesis unfolding e by simp
  next
    case (Some k)
    have "Some k \<in> set col" using Some assms(2) by (metis nth_mem)
    then have kin: "k \<in> set ?ys" using st by blast
    have "length (filter (\<lambda>y. col ! i = Some y) (drop 3 ?ys)) = length (filter (\<lambda>y. y = k) (drop 3 ?ys))"
    proof -
      have "(\<lambda>y. col ! i = Some y) = (\<lambda>y. y = k)" using Some by auto
      then show ?thesis by simp
    qed
    also have "\<dots> = (if k \<in> set (drop 3 ?ys) then 1 else 0)" by (rule count_once[OF d])
    also have "\<dots> = (if ?ys ! 3 \<le> k then 1 else 0)"
      using drop_mem_sorted[OF s, of 3 k] l kin by auto
    finally show ?thesis unfolding e using Some by simp
  qed
qed

lemma val_sets_distinct:
  assumes "time_folds (Some col) = Some folds"
  shows "distinct (concat (map (\<lambda>(tr, va, y). va) folds))"
proof -
  let ?ys = "drop 3 (sort (remdups (dropna col)))"
  have d: "distinct ?ys" by simp
  have "distinct (concat (map (\<lambda>y. index_where (\<lambda>k. k = y) col) ys))" if "distinct ys" for ys
    using that
  proof (induction ys)
    case Nil then show ?case by simp
  next
    case (Cons a ys)
    then show ?case by (auto simp: index_where_distinct index_where_mem)
  qed
  from this[OF d] show ?thesis
    unfolding time_folds_explicit[OF assms] by (simp add: comp_def)
qed

subsection \<open>The out-of-fold matrix\<close>

lemma filled_by_refl: "filled_by {} c c"
  by (simp add: filled_by_def)

lemma filled_by_trans: "filled_by V c c' \<Longrightarrow> filled_by W c' c'' \<Longrightarrow> filled_by (V \<union> W) c c''"
  by (auto simp: filled_by_def)

lemma fold_assign_zip:
  "\<forall>i\<in>set (map fst ps). i < length c \<Longrightarrow>
   filled_by (set (map fst ps)) c (fold (\<lambda>(i, v) a. a[i := Some v]) ps c)"
proof (induction ps arbitrary: c)
  case Nil
  then show ?case by (simp add: filled_by_def)
next
  case (Cons p ps)
  obtain j v where p: "p = (j, v)" by (cases p)
  have "filled_by {j} c (c[j := Some v])"
    using Cons.prems p by (auto simp: filled_by_def nth_list_update)
  moreover have "filled_by (set (map fst ps)) (c[j := Some v]) (fold (\<lambda>(i, v) a. a[i := Some v]) ps (c[j := Some v]))"
    using Cons.prems by (intro Cons.IH) simp
  ultimately show ?case using filled_by_trans p by fastforce
qed

lemma fold_assign_const:
  "\<forall>i\<in>set idx. i < length c \<Longrightarrow>
   filled_by (set idx) c (fold (\<lambda>i a. a[i := Some v]) idx c)"
proof (induction idx arbitrary: c)
  case Nil
  then show ?case by (simp add: filled_by_def)
next
  case (Cons j idx)
  have "filled_by {j} c (c[j := Some v])"
    using Cons.prems by (auto simp: filled_by_def nth_list_update)
  moreover have "filled_by (set idx) (c[j := Some v]) (fold (\<lambda>i a. a[i := Some v]) idx (c[j := Some v]))"
    using Cons.prems by (intro Cons.IH) simp
  ultimately show ?case using filled_by_trans by fastforce
qed

lemma assign_at_filled:
  assumes "assign_at c idx vals = Inr c'"
  shows "filled_by (set idx) c c'"
proof -
  from assms have r: "\<forall>i\<in>set idx. i < length c"
    by (auto simp: assign_at_def split: if_splits)
  show ?thesis
  proof (cases "length vals = length idx")
    case True
    then have "set (map fst (zip idx vals)) = set idx" by simp
    with fold_assign_zip[of "zip idx vals" c] r assms True show ?thesis
      by (auto simp: assign_at_def split: if_splits)
  next
    case False
    with fold_assign_const[OF r] assms show ?thesis
      by (auto simp: assign_at_def split: if_splits)
  qed
qed

lemma fit_models_filled:
  assumes "fit_models api X_tr y_tr X_va y_va val_idx items oof = Inr (items', oof')"
  shows "map fst items' = map fst items \<and>
     (\<forall>name. name \<notin> fst ` set items \<longrightarrow> map_of oof' name = map_of oof name) \<and>
     (\<forall>name\<in>fst ` set items. \<exists>c c'. map_of oof name = Some c \<and> map_of oof' name = Some c' \<and>
         filled_by (set val_idx) c c')"
  using assms
proof (induction items arbitrary: oof items')
  case Nil
  then show ?case by simp
next
  case (Cons item items)
  obtain n m where item: "item = (n, m)" by (cases item)
  from Cons.prems item obtain m' probs c c1 auc rest where
    s: "fit api m X_tr y_tr = Inr m'" "predict_proba api m' X_va = Inr probs"
      "map_of oof n = Some c" "assign_at c val_idx probs = Inr c1"
      "fit_models api X_tr y_tr X_va y_va val_idx items (AList.update n c1 oof) = Inr (rest, oof')"
      "items' = (n, m') # rest"
    by (auto split: sum.splits option.splits)
  note ih = Cons.IH[OF s(5)]
  have f1: "filled_by (set val_idx) c c1" by (rule assign_at_filled[OF s(4)])
  have upd: "map_of (AList.update n c1 oof) = (map_of oof)(n \<mapsto> c1)" by (rule update_conv')
  show ?case
  proof (intro conjI allI impI ballI)
    show "map fst items' = map fst (item # items)" using ih s(6) item by simp
  next
    fix name assume "name \<notin> fst ` set (item # items)"
    then have "name \<noteq> n" "name \<notin> fst ` set items" using item by auto
    with ih upd show "map_of oof' name = map_of oof name" by simp
  next
    fix name assume a: "name \<in> fst ` set (item # items)"
    show "\<exists>c c'. map_of oof name = Some c \<and> map_of oof' name = Some c' \<and> filled_by (set val_idx) c c'"
    proof (cases "name \<in> fst ` set items")
      case True
      with ih obtain d d' where d: "map_of (AList.update n c1 oof) name = Some d"
        "map_of oof' name = Some d'" "filled_by (set val_idx) d d'" by blast
      show ?thesis
      proof (cases "name = n")
        case True
        with d upd have "d = c1" by simp
        with f1 d(3) have "filled_by (set val_idx \<union> set val_idx) c d'" using filled_by_trans by blast
        with True s(3) d(2) show ?thesis by simp
      next
        case False
        with d upd show ?thesis by auto
      qed
    next
      case False
      with a item have n: "name = n" by auto
      with False ih upd have "map_of oof' name = Some c1" by simp
      with n s(3) f1 show ?thesis by simp
    qed
  qed
qed


lemma oof_loop_ConsD:
  assumes "oof_loop api X y ((tr, va, fy) # folds) bm oof = Inr r"
  shows "\<exists>X_tr y_tr X_va y_va bm1 oof1.
     fit_models api X_tr y_tr X_va y_va va bm oof = Inr (bm1, oof1) \<and>
     oof_loop api X y folds bm1 oof1 = Inr r"
  using assms by (simp split: sum.splits prod.splits) blast

lemma keys_pre:
  assumes "map fst bm1 = map fst bm"
   and "\<forall>name\<in>fst ` set bm. \<exists>c c'. map_of oof name = Some c \<and> map_of oof1 name = Some c' \<and> P c c'"
  shows "\<forall>name\<in>fst ` set bm1. map_of oof1 name \<noteq> None"
proof -
  have k: "fst ` set bm1 = fst ` set bm" using assms(1) by (metis set_map)
  show ?thesis
  proof
    fix name assume "name \<in> fst ` set bm1"
    with k have "name \<in> fst ` set bm" by simp
    with assms(2) obtain c' where "map_of oof1 name = Some c'" by blast
    then show "map_of oof1 name \<noteq> None" by simp
  qed
qed

lemma oof_loop_filled:
  assumes "oof_loop api X y folds bm oof = Inr (bm', oof')"
    and "\<forall>name\<in>fst ` set bm. map_of oof name \<noteq> None"
  shows "map fst bm' = map fst bm \<and>
     (\<forall>name\<in>fst ` set bm. \<exists>c c'. map_of oof name = Some c \<and> map_of oof' name = Some c' \<and>
         filled_by (\<Union>f\<in>set folds. set (fst (snd f))) c c')"
  using assms
proof (induction folds arbitrary: bm oof)
  case Nil
  from Nil.prems(1) have e: "bm' = bm" "oof' = oof" by simp_all
  show ?case
  proof (intro conjI ballI)
    show "map fst bm' = map fst bm" using e by simp
  next
    fix name assume "name \<in> fst ` set bm"
    with Nil.prems(2) obtain c where c: "map_of oof name = Some c" by blast
    have "filled_by (\<Union>f\<in>set []. set (fst (snd f))) c c"
      using filled_by_refl[of c] by simp
    with c e show "\<exists>c c'. map_of oof name = Some c \<and> map_of oof' name = Some c' \<and>
         filled_by (\<Union>f\<in>set []. set (fst (snd f))) c c'" by blast
  qed
next
  case (Cons f folds)
  obtain tr va fy where f: "f = (tr, va, fy)" by (cases f)
  from oof_loop_ConsD[OF Cons.prems(1)[unfolded f]] obtain X_tr y_tr X_va y_va bm1 oof1 where
    s: "fit_models api X_tr y_tr X_va y_va va bm oof = Inr (bm1, oof1)"
       "oof_loop api X y folds bm1 oof1 = Inr (bm', oof')"
    by blast
  note fm = fit_models_filled[OF s(1)]
  note fm1 = fm[THEN conjunct1] and fm3 = fm[THEN conjunct2, THEN conjunct2]
  have k: "fst ` set bm1 = fst ` set bm" using fm1 by (metis set_map)
  have pre: "\<forall>name\<in>fst ` set bm1. map_of oof1 name \<noteq> None"
    by (rule keys_pre[OF fm1 fm3])
  note ih = Cons.IH[OF s(2) pre]
  have u: "(\<Union>f\<in>set (f # folds). set (fst (snd f))) = set va \<union> (\<Union>f\<in>set folds. set (fst (snd f)))"
    unfolding f by simp
  show ?case
  proof (intro conjI ballI)
    from ih have "map fst bm' = map fst bm1" by (rule conjunct1)
    moreover note fm1
    ultimately show "map fst bm' = map fst bm" by (rule trans)
  next
    fix name assume a: "name \<in> fst ` set bm"
    with fm3 obtain c c1 where c: "map_of oof name = Some c" "map_of oof1 name = Some c1"
      "filled_by (set va) c c1" by blast
    from a k have "name \<in> fst ` set bm1" by simp
    with ih[THEN conjunct2] obtain d d' where d: "map_of oof1 name = Some d" "map_of oof' name = Some d'"
      "filled_by (\<Union>f\<in>set folds. set (fst (snd f))) d d'" by blast
    from c(2) d(1) have "d = c1" by simp
    with c(3) d(3) have "filled_by (set va \<union> (\<Union>f\<in>set folds. set (fst (snd f)))) c d'"
      by (intro filled_by_trans[of "set va" c c1]) simp_all
    then have "filled_by (\<Union>f\<in>set (f # folds). set (fst (snd f))) c d'" unfolding u .
    with c(1) d(2) show "\<exists>c c'. map_of oof name = Some c \<and> map_of oof' name = Some c' \<and>
         filled_by (\<Union>f\<in>set (f # folds). set (fst (snd f))) c c'" by blast
  qed
qed

lemma map_of_init_oof:
  "name \<in> fst ` set bm \<Longrightarrow>
   map_of (map (\<lambda>(name, model). (name, replicate n None)) bm) name = Some (replicate n None)"
  by (induction bm) auto

lemma get_oof_filled:
  assumes "get_oof_predictions api X y df_year bm = Inr (bm', oof')"
    and "name \<in> fst ` set bm"
  shows "\<exists>folds c. select_folds api X y df_year = Inr folds \<and> map_of oof' name = Some c \<and>
      length c = length y \<and>
      (\<forall>i<length y. (c ! i = None) = (i \<notin> (\<Union>f\<in>set folds. set (fst (snd f)))))"
proof -
  let ?oof = "map (\<lambda>(name, model). (name, replicate (length y) (None::real option))) bm"
  from assms(1) obtain folds where
    s: "select_folds api X y df_year = Inr folds" "oof_loop api X y folds bm ?oof = Inr (bm', oof')"
    by (auto simp: get_oof_predictions_def split: sum.splits)
  have pre: "\<forall>name\<in>fst ` set bm. map_of ?oof name \<noteq> None"
    by (simp add: map_of_init_oof)
  from oof_loop_filled[OF s(2) pre] assms(2) obtain c c' where
    c: "map_of ?oof name = Some c" "map_of oof' name = Some c'"
      "filled_by (\<Union>f\<in>set folds. set (fst (snd f))) c c'" by blast
  have "map_of ?oof name = Some (replicate (length y) None)"
    by (rule map_of_init_oof[OF assms(2)])
  with c(1) have "c = replicate (length y) None" by simp
  with c(3) have "length c' = length y \<and>
      (\<forall>i<length y. (c' ! i = None) = (i \<notin> (\<Union>f\<in>set folds. set (fst (snd f)))))"
    by (simp add: filled_by_def)
  with s(1) c(2) show ?thesis by blast
qed

subsection \<open>Single assignment of the out-of-fold matrix\<close>

lemma select_folds_time:
  "time_folds df_year = Some folds \<Longrightarrow>
   select_folds api X y df_year = Inr (map (\<lambda>(tr, va, y). (tr, va, Some y)) folds)"
  by (simp add: select_folds_def)

lemma val_union_map:
  "(\<Union>f\<in>set (map (\<lambda>(tr, va, y). (tr, va, Some y)) folds). set (fst (snd f))) =
   (\<Union>f\<in>set folds. set (fst (snd f)))"
  by (auto simp: case_prod_beta)

text \<open>
  Claim C2. In time-based mode, a row whose year is one of the distinct years from index 3
  of their ascending list on is in the validate-index set of exactly one fold; a row
  with an earlier year (or with no year) is in none; no index occurs twice in the
  validate-index sets of one pass, so that each cell of the out-of-fold matrix is
  written at most once; and after \<^verbatim>\<open>get_oof_predictions\<close> a cell is unset exactly when
  its row is in no validate-index set.
\<close>

theorem oof_single_assignment:
  "(time_folds (Some col) = Some folds \<and> i < length col \<longrightarrow>
      length (filter (\<lambda>(tr, va, y). i \<in> set va) folds) =
        (case col ! i of None \<Rightarrow> 0
         | Some k \<Rightarrow> if sort (remdups (dropna col)) ! 3 \<le> k then 1 else 0) \<and>
      distinct (concat (map (\<lambda>(tr, va, y). va) folds))) \<and>
   (time_folds (Some col) = Some folds \<and>
    get_oof_predictions api X y (Some col) bm = Inr (bm', oof') \<and> name \<in> fst ` set bm \<longrightarrow>
      (\<exists>c. map_of oof' name = Some c \<and> length c = length y \<and>
         (\<forall>j<length y. (c ! j = None) = (\<forall>f\<in>set folds. j \<notin> set (fst (snd f))))))"
proof (intro conjI impI)
  assume a: "time_folds (Some col) = Some folds \<and> i < length col"
  then show "length (filter (\<lambda>(tr, va, y). i \<in> set va) folds) =
        (case col ! i of None \<Rightarrow> 0
         | Some k \<Rightarrow> if sort (remdups (dropna col)) ! 3 \<le> k then 1 else 0)"
    using validate_count by blast
  from a show "distinct (concat (map (\<lambda>(tr, va, y). va) folds))"
    using val_sets_distinct by blast
next
  assume a: "time_folds (Some col) = Some folds \<and>
    get_oof_predictions api X y (Some col) bm = Inr (bm', oof') \<and> name \<in> fst ` set bm"
  then have tf: "time_folds (Some col) = Some folds"
    and g: "get_oof_predictions api X y (Some col) bm = Inr (bm', oof')"
    and n: "name \<in> fst ` set bm" by simp_all
  from get_oof_filled[OF g n] obtain fs c where
    c: "select_folds api X y (Some col) = Inr fs" "map_of oof' name = Some c" "length c = length y"
      "\<forall>j<length y. (c ! j = None) = (j \<notin> (\<Union>f\<in>set fs. set (fst (snd f))))" by blast
  from c(1) select_folds_time[OF tf, of api X y]
  have "fs = map (\<lambda>(tr, va, y). (tr, va, Some y)) folds" by simp
  then have "(\<Union>f\<in>set fs. set (fst (snd f))) = (\<Union>f\<in>set folds. set (fst (snd f)))"
    using val_union_map by simp
  with c(4) have "\<forall>j<length y. (c ! j = None) = (\<forall>f\<in>set folds. j \<notin> set (fst (snd f)))"
    by simp
  with c(2,3) show "\<exists>c. map_of oof' name = Some c \<and> length c = length y \<and>
         (\<forall>j<length y. (c ! j = None) = (\<forall>f\<in>set folds. j \<notin> set (fst (snd f))))" by blast
qed

text \<open>
  The theorem on the table of seven rows, with two estimators: row 6 (year 2018) is
  validated once and its cell is set, row 4 (no year) stays unset.
\<close>

theorem oof_single_assignment_witness:
  "time_folds (Some [Some (2015::int), Some 2016, Some 2017, Some 2018, None, Some 2019, Some 2018])
     = Some [([0, 1, 2], [3, 6], 2018), ([0, 1, 2, 3, 6], [5], 2019)] \<and>
   get_oof_predictions stub_learners
       [[Some 1], [Some 1], [Some 1], [Some 1], [None], [Some 1], [Some 2]] [0, 1, 0, 1, 0, 1, 1]
       (Some [Some (2015::int), Some 2016, Some 2017, Some 2018, None, Some 2019, Some 2018])
       [(''lr'', 0), (''xgb'', 0)]
     = Inr ([(''lr'', 5), (''xgb'', 5)],
         [(''lr'', [None, None, None, Some (1 / 2), None, Some (1 / 2), Some (1 / 2)]),
          (''xgb'', [None, None, None, Some (1 / 2), None, Some (1 / 2), Some (1 / 2)])]) \<and>
   length (filter (\<lambda>(tr, va, y). 6 \<in> set va)
       [([0::nat, 1, 2], [3::nat, 6], 2018::int), ([0, 1, 2, 3, 6], [5], 2019)]) = 1 \<and>
   distinct (concat (map (\<lambda>(tr, va, y). va)
       [([0::nat, 1, 2], [3::nat, 6], 2018::int), ([0, 1, 2, 3, 6], [5], 2019)])) \<and>
   (\<exists>c. map_of [(''lr'', [None, None, None, Some (1 / 2 :: real), None, Some (1 / 2), Some (1 / 2)]),
          (''xgb'', [None, None, None, Some (1 / 2), None, Some (1 / 2), Some (1 / 2)])] ''xgb'' = Some c
        \<and> length c = 7 \<and> c ! 4 = None \<and> c ! 6 \<noteq> None)"
proof -
  let ?col = "[Some (2015::int), Some 2016, Some 2017, Some 2018, None, Some 2019, Some 2018]"
  let ?folds = "[([0::nat, 1, 2], [3::nat, 6], 2018::int), ([0, 1, 2, 3, 6], [5], 2019)]"
  let ?X = "[[Some 1], [Some 1], [Some 1], [Some 1], [None], [Some 1], [Some (2::real)]]"
  let ?y = "[0, 1, 0, 1, 0, 1, 1::int]"
  let ?oof = "[(''lr'', [None, None, None, Some (1 / 2 :: real), None, Some (1 / 2), Some (1 / 2)]),
          (''xgb'', [None, None, None, Some (1 / 2), None, Some (1 / 2), Some (1 / 2)])]"
  have h1: "time_folds (Some ?col) = Some ?folds" by code_simp
  have h2: "get_oof_predictions stub_learners ?X ?y (Some ?col) [(''lr'', 0), (''xgb'', 0)]
     = Inr ([(''lr'', 5), (''xgb'', 5)], ?oof)" by code_simp
  have h3: "(6::nat) < length ?col" by simp
  have h4: "''xgb'' \<in> fst ` set [(''lr'', 0::nat), (''xgb'', 0)]" by simp
  have h5: "(case ?col ! 6 of None \<Rightarrow> 0
         | Some k \<Rightarrow> if sort (remdups (dropna ?col)) ! 3 \<le> k then 1 else 0) = (1::nat)"
    by code_simp
  note t = oof_single_assignment [of ?col ?folds 6 stub_learners ?X ?y "[(''lr'', 0), (''xgb'', 0)]"
      "[(''lr'', 5), (''xgb'', 5)]" ?oof "''xgb''"]
  note t1 = t[THEN conjunct1, THEN mp, OF conjI[OF h1 h3]]
  note t2 = t[THEN conjunct2, THEN mp, OF conjI[OF h1 conjI[OF h2 h4]]]
  from t1 h5 have a: "length (filter (\<lambda>(tr, va, y). 6 \<in> set va) ?folds) = 1"
    and b: "distinct (concat (map (\<lambda>(tr, va, y). va) ?folds))" by simp_all
  from t2 obtain c where c: "map_of ?oof ''xgb'' = Some c" "length c = length ?y"
    "\<forall>j<length ?y. (c ! j = None) = (\<forall>f\<in>set ?folds. j \<notin> set (fst (snd f)))" by blast
  from c(3) have "c ! 4 = None" "c ! 6 \<noteq> None" by simp_all
  with c(1,2) have "\<exists>c. map_of ?oof ''xgb'' = Some c \<and> length c = 7 \<and> c ! 4 = None \<and> c ! 6 \<noteq> None"
    by simp
  with h1 h2 a b show ?thesis by (intro conjI)
qed

subsection \<open>Choice of the fold strategy\<close>

text \<open>
  Claim C3. The choice of the folds is a function of the table: without a column
  \<^verbatim>\<open>year\<close>, or with fewer than 5 distinct years, the folds are those of
  \<^verbatim>\<open>StratifiedKFold\<close> with \<open>k = 5\<close>, shuffling and seed 42 (each with no year);
  otherwise they are the expanding-window folds of the years from index 3 on, and only
  those. The loop emits a fold for a year exactly when that year has training rows
  before it and validation rows: a year with no training row before it is skipped.
\<close>

theorem fold_strategy_selection:
  "select_folds api X y None =
     (case stratified_kfold api 5 True 42 X y of
        Inl e \<Rightarrow> Inl e
      | Inr skf \<Rightarrow> Inr (map (\<lambda>(train_idx, val_idx). (train_idx, val_idx, None)) skf)) \<and>
   select_folds api X y (Some col) =
     (if length (sort (remdups (dropna col))) < 5
      then (case stratified_kfold api 5 True 42 X y of
              Inl e \<Rightarrow> Inl e
            | Inr skf \<Rightarrow> Inr (map (\<lambda>(train_idx, val_idx). (train_idx, val_idx, None)) skf))
      else Inr (map (\<lambda>year. (index_where (\<lambda>k. k < year) col, index_where (\<lambda>k. k = year) col,
                             Some year))
                  (drop 3 (sort (remdups (dropna col)))))) \<and>
   ((train_idx, val_idx, fold_year) \<in> set (fold_loop c fold_years) \<longleftrightarrow>
      fold_year \<in> set fold_years \<and>
      train_idx = index_where (\<lambda>k. k < fold_year) c \<and>
      val_idx = index_where (\<lambda>k. k = fold_year) c \<and>
      train_idx \<noteq> [] \<and> val_idx \<noteq> [])"
proof (intro conjI)
  show "select_folds api X y None =
     (case stratified_kfold api 5 True 42 X y of
        Inl e \<Rightarrow> Inl e
      | Inr skf \<Rightarrow> Inr (map (\<lambda>(train_idx, val_idx). (train_idx, val_idx, None)) skf))"
    by (simp add: select_folds_def time_folds_def)
next
  show "select_folds api X y (Some col) =
     (if length (sort (remdups (dropna col))) < 5
      then (case stratified_kfold api 5 True 42 X y of
              Inl e \<Rightarrow> Inl e
            | Inr skf \<Rightarrow> Inr (map (\<lambda>(train_idx, val_idx). (train_idx, val_idx, None)) skf))
      else Inr (map (\<lambda>year. (index_where (\<lambda>k. k < year) col, index_where (\<lambda>k. k = year) col,
                             Some year))
                  (drop 3 (sort (remdups (dropna col))))))"
  proof (cases "length (sort (remdups (dropna col))) < 5")
    case True
    then have "time_folds (Some col) = None" by (simp add: time_folds_def)
    with True show ?thesis by (simp add: select_folds_def)
  next
    case False
    then obtain folds where f: "time_folds (Some col) = Some folds"
      by (auto simp: time_folds_def Let_def)
    from time_folds_explicit[OF f] f False show ?thesis
      by (simp add: select_folds_def comp_def)
  qed
next
  show "(train_idx, val_idx, fold_year) \<in> set (fold_loop c fold_years) \<longleftrightarrow>
      fold_year \<in> set fold_years \<and>
      train_idx = index_where (\<lambda>k. k < fold_year) c \<and>
      val_idx = index_where (\<lambda>k. k = fold_year) c \<and>
      train_idx \<noteq> [] \<and> val_idx \<noteq> []"
    by (rule fold_loop_mem)
qed

text \<open>
  The theorem on a table with four distinct years (the stand-in k-fold split is chosen),
  on one with five (two time-based folds), and on a loop over the years 2015 and 2016 of
  a table where no row precedes 2015: no fold with an empty train-index set is emitted.
\<close>

theorem fold_strategy_selection_witness:
  "select_folds stub_learners [[Some 1], [Some 1], [Some 1], [Some 1], [Some 1]] [0, 1, 0, 1, 0]
       (Some [Some (2015::int), Some 2016, Some 2017, Some 2018, Some 2018])
     = Inr [([1, 2, 3, 4], [0], None), ([0, 2, 3, 4], [1], None), ([0, 1, 3, 4], [2], None),
            ([0, 1, 2, 4], [3], None), ([0, 1, 2, 3], [4], None)] \<and>
   select_folds stub_learners [[Some 1], [Some 1], [Some 1], [Some 1], [Some 1]] [0, 1, 0, 1, 0]
       (Some [Some (2015::int), Some 2016, Some 2017, Some 2018, Some 2019])
     = Inr [([0, 1, 2], [3], Some 2018), ([0, 1, 2, 3], [4], Some 2019)] \<and>
   ([], [1], 2015) \<notin> set (fold_loop [Some (2016::int), Some 2015, Some 2016] [2015, 2016])"
proof -
  let ?X = "[[Some 1], [Some 1], [Some 1], [Some 1], [Some (1::real)]]"
  let ?y = "[0, 1, 0, 1, 0::int]"
  let ?c4 = "[Some (2015::int), Some 2016, Some 2017, Some 2018, Some 2018]"
  let ?c5 = "[Some (2015::int), Some 2016, Some 2017, Some 2018, Some 2019]"
  let ?c = "[Some (2016::int), Some 2015, Some 2016]"
  note t4 = fold_strategy_selection [of stub_learners ?X ?y ?c4 "[]" "[1]" 2015 ?c "[2015, 2016]"]
  note t5 = fold_strategy_selection [of stub_learners ?X ?y ?c5 "[]" "[1]" 2015 ?c "[2015, 2016]"]
  have r4: "(if length (sort (remdups (dropna ?c4))) < 5
      then (case stratified_kfold stub_learners 5 True 42 ?X ?y of
              Inl e \<Rightarrow> Inl e
            | Inr skf \<Rightarrow> Inr (map (\<lambda>(train_idx, val_idx). (train_idx, val_idx, None)) skf))
      else Inr (map (\<lambda>year. (index_where (\<lambda>k. k < year) ?c4, index_where (\<lambda>k. k = year) ?c4,
                             Some year))
                  (drop 3 (sort (remdups (dropna ?c4))))))
    = Inr [([1, 2, 3, 4], [0], None), ([0, 2, 3, 4], [1], None), ([0, 1, 3, 4], [2], None),
            ([0, 1, 2, 4], [3], None), ([0, 1, 2, 3], [4], None)]"
    by code_simp
  have r5: "(if length (sort (remdups (dropna ?c5))) < 5
      then (case stratified_kfold stub_learners 5 True 42 ?X ?y of
              Inl e \<Rightarrow> Inl e
            | Inr skf \<Rightarrow> Inr (map (\<lambda>(train_idx, val_idx). (train_idx, val_idx, None)) skf))
      else Inr (map (\<lambda>year. (index_where (\<lambda>k. k < year) ?c5, index_where (\<lambda>k. k = year) ?c5,
                             Some year))
                  (drop 3 (sort (remdups (dropna ?c5))))))
    = Inr [([0, 1, 2], [3], Some 2018), ([0, 1, 2, 3], [4], Some 2019)]"
    by code_simp
  have a: "select_folds stub_learners ?X ?y (Some ?c4)
     = Inr [([1, 2, 3, 4], [0], None), ([0, 2, 3, 4], [1], None), ([0, 1, 3, 4], [2], None),
            ([0, 1, 2, 4], [3], None), ([0, 1, 2, 3], [4], None)]"
    by (rule trans[OF t4[THEN conjunct2, THEN conjunct1] r4])
  have b: "select_folds stub_learners ?X ?y (Some ?c5)
     = Inr [([0, 1, 2], [3], Some 2018), ([0, 1, 2, 3], [4], Some 2019)]"
    by (rule trans[OF t5[THEN conjunct2, THEN conjunct1] r5])
  have c: "([], [1], 2015) \<notin> set (fold_loop ?c [2015, 2016])"
  proof
    assume m: "([], [1], 2015) \<in> set (fold_loop ?c [2015, 2016])"
    from iffD1[OF t4[THEN conjunct2, THEN conjunct2] m] show False by simp
  qed
  from a b c show ?thesis by (intro conjI)
qed

subsection \<open>The feature table loader\<close>

lemma map_err_InrD:
  "map_err f xs = Inr ys \<Longrightarrow> length ys = length xs \<and> (\<forall>k<length xs. f (xs ! k) = Inr (ys ! k))"
proof (induction xs arbitrary: ys)
  case Nil
  then show ?case by simp
next
  case (Cons x xs)
  from Cons.prems obtain v vs where s: "f x = Inr v" "map_err f xs = Inr vs" "ys = v # vs"
    by (auto split: sum.splits)
  from Cons.IH[OF s(2)] s show ?case by (auto simp: nth_Cons split: nat.splits)
qed

lemma impute_ConsD:
  assumes "impute (col # cols) fills tr va = Inr r"
  shows "\<exists>xs vc. map_of tr col = Some (Numeric xs) \<and> map_of va col = Some vc \<and>
     impute cols (AList.update col (median xs) fills)
       (AList.update col (fillna (median xs) (Numeric xs)) tr)
       (AList.update col (fillna (median xs) vc) va) = Inr r"
  using assms by (simp add: Let_def split: option.splits column.splits)

lemma impute_spec:
  assumes "impute cols fills tr va = Inr (fills', tr', va')" "distinct cols"
  shows "(\<forall>c\<in>set cols. \<exists>xs vc. map_of tr c = Some (Numeric xs) \<and> map_of va c = Some vc \<and>
            map_of fills' c = Some (median xs) \<and>
            map_of tr' c = Some (fillna (median xs) (Numeric xs)) \<and>
            map_of va' c = Some (fillna (median xs) vc)) \<and>
         (\<forall>c. c \<notin> set cols \<longrightarrow> map_of fills' c = map_of fills c \<and> map_of tr' c = map_of tr c \<and>
            map_of va' c = map_of va c)"
  using assms
proof (induction cols arbitrary: fills tr va)
  case Nil
  then show ?case by simp
next
  case (Cons col cols)
  from impute_ConsD[OF Cons.prems(1)] obtain xs vc where
    s: "map_of tr col = Some (Numeric xs)" "map_of va col = Some vc"
       "impute cols (AList.update col (median xs) fills)
          (AList.update col (fillna (median xs) (Numeric xs)) tr)
          (AList.update col (fillna (median xs) vc) va) = Inr (fills', tr', va')" by blast
  from Cons.prems(2) have d: "distinct cols" "col \<notin> set cols" by simp_all
  note ih = Cons.IH[OF s(3) d(1)]
  note ih1 = ih[THEN conjunct1] and ih2 = ih[THEN conjunct2]
  show ?case
  proof (intro conjI ballI allI impI)
    fix c assume c: "c \<in> set (col # cols)"
    show "\<exists>xs vc. map_of tr c = Some (Numeric xs) \<and> map_of va c = Some vc \<and>
            map_of fills' c = Some (median xs) \<and>
            map_of tr' c = Some (fillna (median xs) (Numeric xs)) \<and>
            map_of va' c = Some (fillna (median xs) vc)"
    proof (cases "c = col")
      case True
      from ih2 d(2) True have "map_of fills' c = map_of (AList.update col (median xs) fills) c"
        "map_of tr' c = map_of (AList.update col (fillna (median xs) (Numeric xs)) tr) c"
        "map_of va' c = map_of (AList.update col (fillna (median xs) vc) va) c" by simp_all
      with True have "map_of fills' c = Some (median xs)"
        "map_of tr' c = Some (fillna (median xs) (Numeric xs))"
        "map_of va' c = Some (fillna (median xs) vc)" by (simp_all add: update_conv')
      with True s(1,2) show ?thesis by blast
    next
      case False
      with c have "c \<in> set cols" by simp
      with ih1 obtain ys wc where
        y: "map_of (AList.update col (fillna (median xs) (Numeric xs)) tr) c = Some (Numeric ys)"
           "map_of (AList.update col (fillna (median xs) vc) va) c = Some wc"
           "map_of fills' c = Some (median ys)"
           "map_of tr' c = Some (fillna (median ys) (Numeric ys))"
           "map_of va' c = Some (fillna (median ys) wc)" by blast
      from y(1,2) False have "map_of tr c = Some (Numeric ys)" "map_of va c = Some wc"
        by (simp_all add: update_conv')
      with y(3,4,5) show ?thesis by blast
    qed
  next
    fix c assume "c \<notin> set (col # cols)"
    then have "c \<noteq> col" "c \<notin> set cols" by simp_all
    with ih2 show "map_of fills' c = map_of fills c" "map_of tr' c = map_of tr c"
      "map_of va' c = map_of va c" by (simp_all add: update_conv')
  qed
qed

lemma impute_fills_indep:
  "impute cols fills tr va = Inr (fills1, tr1, va1) \<Longrightarrow>
   impute cols fills tr vb = Inr (fills2, tr2, vb2) \<Longrightarrow> fills1 = fills2 \<and> tr1 = tr2"
proof (induction cols arbitrary: fills tr va vb)
  case Nil
  then show ?case by simp
next
  case (Cons col cols)
  from impute_ConsD[OF Cons.prems(1)] obtain xs vc where
    s: "map_of tr col = Some (Numeric xs)" 
       "impute cols (AList.update col (median xs) fills)
          (AList.update col (fillna (median xs) (Numeric xs)) tr)
          (AList.update col (fillna (median xs) vc) va) = Inr (fills1, tr1, va1)" by blast
  from impute_ConsD[OF Cons.prems(2)] obtain xs' vc' where
    s': "map_of tr col = Some (Numeric xs')" 
       "impute cols (AList.update col (median xs') fills)
          (AList.update col (fillna (median xs') (Numeric xs')) tr)
          (AList.update col (fillna (median xs') vc') vb) = Inr (fills2, tr2, vb2)" by blast
  from s(1) s'(1) have "xs' = xs" by simp
  with s(2) s'(2) show ?case using Cons.IH by blast
qed

lemma values_float_spec:
  assumes "values_float np df cols = Inr M"
  shows "length M = nrows df \<and>
     (\<forall>k<length cols. \<exists>col xs. map_of (columns df) (cols ! k) = Some col \<and>
        astype_float np col = Inr xs \<and> (\<forall>i<nrows df. M ! i ! k = xs ! i))"
proof -
  let ?f = "\<lambda>c. case map_of (columns df) c of None \<Rightarrow> Inl (KeyError c)
                         | Some col \<Rightarrow> astype_float np col"
  from assms obtain cs where cs: "map_err ?f cols = Inr cs"
    and M: "M = map (\<lambda>i. map (\<lambda>c. c ! i) cs) [0..<nrows df]"
    by (auto simp: values_float_def split: sum.splits)
  from map_err_InrD[OF cs] have l: "length cs = length cols"
    and e: "\<forall>k<length cols. ?f (cols ! k) = Inr (cs ! k)" by simp_all
  show ?thesis
  proof (intro conjI allI impI)
    show "length M = nrows df" using M by simp
  next
    fix k assume k: "k < length cols"
    with e have "?f (cols ! k) = Inr (cs ! k)" by simp
    then obtain col where c: "map_of (columns df) (cols ! k) = Some col"
      "astype_float np col = Inr (cs ! k)" by (auto split: option.splits)
    have "\<forall>i<nrows df. M ! i ! k = cs ! k ! i" using M k l by simp
    with c show "\<exists>col xs. map_of (columns df) (cols ! k) = Some col \<and>
        astype_float np col = Inr xs \<and> (\<forall>i<nrows df. M ! i ! k = xs ! i)" by blast
  qed
qed

lemma astype_float_object_None:
  assumes "astype_float np (Object os) = Inr zs" "i < length os"
  shows "(os ! i = None \<longrightarrow> zs ! i = None) \<and> (\<forall>v. os ! i = Some (Inr v) \<longrightarrow> zs ! i = Some v)"
proof -
  let ?f = "\<lambda>c. case c of None \<Rightarrow> Inr None | Some (Inl s) \<Rightarrow> float_of np s | Some (Inr v) \<Rightarrow> Inr (Some v)"
  from assms(1) have "map_err ?f os = Inr zs" by simp
  from map_err_InrD[OF this] assms(2) have "?f (os ! i) = Inr (zs ! i)" by simp
  then show ?thesis by (auto split: option.splits sum.splits)
qed

lemma wf_df_lookup:
  "wf_df df \<Longrightarrow> map_of (columns df) c = Some col \<Longrightarrow> column_length col = nrows df"
  by (auto simp: wf_df_def list_all_iff dest: map_of_SomeD)

lemma select_features_D:
  assumes "select_features np self train_df val_df = Inr (self', train_df', val_df', X_train, y_train, X_val, y_val)"
  shows "\<exists>fills tr va.
     impute (feature_cols self') (fill_values self) (columns train_df) (columns val_df) = Inr (fills, tr, va) \<and>
     feature_cols self' = filter (\<lambda>c. c \<notin> set exclude_cols)
         (map fst (filter (\<lambda>(c, col). is_numeric_dtype col) (columns train_df))) \<and>
     fill_values self' = fills \<and> train_df' = train_df\<lparr>columns := tr\<rparr> \<and> val_df' = val_df\<lparr>columns := va\<rparr> \<and>
     values_float np train_df' (feature_cols self') = Inr X_train \<and>
     label_values np train_df' = Inr y_train \<and>
     values_float np val_df' (feature_cols self') = Inr X_val \<and>
     label_values np val_df' = Inr y_val"
  using assms by (auto simp: select_features_def Let_def split: sum.splits)

lemma features_distinct:
  "distinct (map fst cs) \<Longrightarrow>
   distinct (filter (\<lambda>c. c \<notin> set exclude_cols) (map fst (filter (\<lambda>(c, col). is_numeric_dtype col) cs)))"
  by (simp add: distinct_map_filter)

subsection \<open>Fill values\<close>

lemma fillna_numeric_nth:
  "i < length xs \<Longrightarrow> astype_float np (fillna m (Numeric xs)) = Inr zs \<Longrightarrow>
   zs ! i = (case xs ! i of None \<Rightarrow> m | Some v \<Rightarrow> Some v)"
  by auto

lemma fillna_object_nth:
  assumes "i < length os" "astype_float np (fillna m (Object os)) = Inr zs" "os ! i = None"
  shows "zs ! i = m"
proof -
  let ?os = "map (\<lambda>c. case c of None \<Rightarrow> map_option Inr m | Some v \<Rightarrow> Some v) os"
  from assms(2) have a: "astype_float np (Object ?os) = Inr zs" by simp
  from assms(1) have l: "i < length ?os" by simp
  from assms(1,3) have c: "?os ! i = map_option Inr m" by simp
  note t = astype_float_object_None[OF a l]
  show ?thesis
  proof (cases m)
    case None
    with c t show ?thesis by simp
  next
    case (Some v)
    with c t show ?thesis by simp
  qed
qed

lemma prepare_data_select_features:
  "prepare_data np train_df val_df =
     (case select_features np init_trainer train_df val_df of
        Inl e \<Rightarrow> Inl e
      | Inr (s, tr, va, X, y, Xv, yv) \<Rightarrow> Inr (tr, X, y, Xv, yv, feature_cols s, fill_values s))"
  by (simp add: prepare_data_def select_features_def init_trainer_def Let_def split: sum.splits prod.splits)

text \<open>
  Claim C8. For every selected feature column, the value recorded in \<^verbatim>\<open>fill_values\<close> is
  the median of that column of the history table; in the matrices returned, a cell of
  that column is the table's own value where it was present and exactly that median
  where it was missing, in the history rows and in the holdout rows alike; the fill
  values do not depend on the holdout table; and \<^verbatim>\<open>prepare_data\<close> computes the same
  as \<^verbatim>\<open>select_features\<close> on a new trainer. (A history column with no value at all has the
  median NaN, and its missing cells stay NaN.)
\<close>

theorem fill_from_history:
  "(select_features np self train_df val_df
       = Inr (self', train_df', val_df', X_train, y_train, X_val, y_val) \<and>
    distinct (map fst (columns train_df)) \<and> wf_df train_df \<and> wf_df val_df \<and>
    k < length (feature_cols self') \<longrightarrow>
      (\<exists>xs vc. map_of (columns train_df) (feature_cols self' ! k) = Some (Numeric xs) \<and>
         map_of (columns val_df) (feature_cols self' ! k) = Some vc \<and>
         map_of (fill_values self') (feature_cols self' ! k) = Some (median xs) \<and>
         (\<forall>i<nrows train_df.
            X_train ! i ! k = (case xs ! i of None \<Rightarrow> median xs | Some v \<Rightarrow> Some v)) \<and>
         (\<forall>i<nrows val_df.
            (case vc of
               Numeric ys \<Rightarrow> X_val ! i ! k = (case ys ! i of None \<Rightarrow> median xs | Some v \<Rightarrow> Some v)
             | Object os \<Rightarrow> os ! i = None \<longrightarrow> X_val ! i ! k = median xs)))) \<and>
   (select_features np self train_df val_df = Inr r \<and>
    select_features np self train_df val_df2 = Inr r2 \<longrightarrow>
      fill_values (fst r2) = fill_values (fst r)) \<and>
   prepare_data np train_df val_df =
     (case select_features np init_trainer train_df val_df of
        Inl e \<Rightarrow> Inl e
      | Inr (s, tr, va, X, y, Xv, yv) \<Rightarrow> Inr (tr, X, y, Xv, yv, feature_cols s, fill_values s))"
proof (intro conjI impI)
  assume a: "select_features np self train_df val_df
       = Inr (self', train_df', val_df', X_train, y_train, X_val, y_val) \<and>
    distinct (map fst (columns train_df)) \<and> wf_df train_df \<and> wf_df val_df \<and>
    k < length (feature_cols self')"
  then have sf: "select_features np self train_df val_df
       = Inr (self', train_df', val_df', X_train, y_train, X_val, y_val)"
    and d: "distinct (map fst (columns train_df))" and wt: "wf_df train_df" and wv: "wf_df val_df"
    and k: "k < length (feature_cols self')" by simp_all
  let ?c = "feature_cols self' ! k"
  from select_features_D[OF sf] obtain fills tr va where
    i: "impute (feature_cols self') (fill_values self) (columns train_df) (columns val_df) = Inr (fills, tr, va)"
    and fc: "feature_cols self' = filter (\<lambda>c. c \<notin> set exclude_cols)
         (map fst (filter (\<lambda>(c, col). is_numeric_dtype col) (columns train_df)))"
    and fv: "fill_values self' = fills" and t': "train_df' = train_df\<lparr>columns := tr\<rparr>"
    and v': "val_df' = val_df\<lparr>columns := va\<rparr>"
    and xt: "values_float np train_df' (feature_cols self') = Inr X_train"
    and xv: "values_float np val_df' (feature_cols self') = Inr X_val" by blast
  have dc: "distinct (feature_cols self')" unfolding fc by (rule features_distinct[OF d])
  from k have cin: "?c \<in> set (feature_cols self')" by simp
  from impute_spec[OF i dc, THEN conjunct1] cin obtain xs vc where
    s: "map_of (columns train_df) ?c = Some (Numeric xs)" "map_of (columns val_df) ?c = Some vc"
       "map_of fills ?c = Some (median xs)"
       "map_of tr ?c = Some (fillna (median xs) (Numeric xs))"
       "map_of va ?c = Some (fillna (median xs) vc)" by blast
  from wf_df_lookup[OF wt s(1)] have lx: "length xs = nrows train_df" by (simp add: column_length_def)
  from wf_df_lookup[OF wv s(2)] have lv: "column_length vc = nrows val_df" .
  from values_float_spec[OF xt, THEN conjunct2] k obtain col zs where
    z: "map_of (columns train_df') ?c = Some col" "astype_float np col = Inr zs"
       "\<forall>i<nrows train_df'. X_train ! i ! k = zs ! i" by blast
  from z(1) s(4) t' have "col = fillna (median xs) (Numeric xs)" by simp
  with z(2) have zf: "astype_float np (fillna (median xs) (Numeric xs)) = Inr zs" by simp
  have A: "\<forall>i<nrows train_df. X_train ! i ! k = (case xs ! i of None \<Rightarrow> median xs | Some v \<Rightarrow> Some v)"
  proof (intro allI impI)
    fix i assume "i < nrows train_df"
    with lx z(3) t' have "i < length xs" "X_train ! i ! k = zs ! i" by simp_all
    with fillna_numeric_nth[OF _ zf] show "X_train ! i ! k = (case xs ! i of None \<Rightarrow> median xs | Some v \<Rightarrow> Some v)"
      by simp
  qed
  from values_float_spec[OF xv, THEN conjunct2] k obtain colv zv where
    zv: "map_of (columns val_df') ?c = Some colv" "astype_float np colv = Inr zv"
       "\<forall>i<nrows val_df'. X_val ! i ! k = zv ! i" by blast
  from zv(1) s(5) v' have "colv = fillna (median xs) vc" by simp
  with zv(2) have zvf: "astype_float np (fillna (median xs) vc) = Inr zv" by simp
  have B: "\<forall>i<nrows val_df.
            (case vc of
               Numeric ys \<Rightarrow> X_val ! i ! k = (case ys ! i of None \<Rightarrow> median xs | Some v \<Rightarrow> Some v)
             | Object os \<Rightarrow> os ! i = None \<longrightarrow> X_val ! i ! k = median xs)"
  proof (intro allI impI)
    fix i assume iv: "i < nrows val_df"
    with zv(3) v' have e: "X_val ! i ! k = zv ! i" by simp
    show "case vc of
               Numeric ys \<Rightarrow> X_val ! i ! k = (case ys ! i of None \<Rightarrow> median xs | Some v \<Rightarrow> Some v)
             | Object os \<Rightarrow> os ! i = None \<longrightarrow> X_val ! i ! k = median xs"
    proof (cases vc)
      case (Numeric ys)
      with lv iv have "i < length ys" by (simp add: column_length_def)
      from fillna_numeric_nth[OF this zvf[unfolded Numeric]] e Numeric show ?thesis by simp
    next
      case (Object os)
      with lv iv have "i < length os" by (simp add: column_length_def)
      from fillna_object_nth[OF this zvf[unfolded Object]] e Object show ?thesis by simp
    qed
  qed
  from s(1,2,3) fv A B
  show "\<exists>xs vc. map_of (columns train_df) ?c = Some (Numeric xs) \<and>
         map_of (columns val_df) ?c = Some vc \<and>
         map_of (fill_values self') ?c = Some (median xs) \<and>
         (\<forall>i<nrows train_df.
            X_train ! i ! k = (case xs ! i of None \<Rightarrow> median xs | Some v \<Rightarrow> Some v)) \<and>
         (\<forall>i<nrows val_df.
            (case vc of
               Numeric ys \<Rightarrow> X_val ! i ! k = (case ys ! i of None \<Rightarrow> median xs | Some v \<Rightarrow> Some v)
             | Object os \<Rightarrow> os ! i = None \<longrightarrow> X_val ! i ! k = median xs))"
    by blast
next
  assume a: "select_features np self train_df val_df = Inr r \<and>
    select_features np self train_df val_df2 = Inr r2"
  obtain s1 t1 v1 X1 y1 Xv1 yv1 where r: "r = (s1, t1, v1, X1, y1, Xv1, yv1)" by (cases r) auto
  obtain s2 t2 v2 X2 y2 Xv2 yv2 where r2: "r2 = (s2, t2, v2, X2, y2, Xv2, yv2)" by (cases r2) auto
  from a r select_features_D[of np self train_df val_df s1 t1 v1 X1 y1 Xv1 yv1] obtain f1 tr1 va1 where
    i1: "impute (feature_cols s1) (fill_values self) (columns train_df) (columns val_df) = Inr (f1, tr1, va1)"
    and c1: "feature_cols s1 = filter (\<lambda>c. c \<notin> set exclude_cols)
         (map fst (filter (\<lambda>(c, col). is_numeric_dtype col) (columns train_df)))"
    and e1: "fill_values s1 = f1" by blast
  from a r2 select_features_D[of np self train_df val_df2 s2 t2 v2 X2 y2 Xv2 yv2] obtain f2 tr2 va2 where
    i2: "impute (feature_cols s2) (fill_values self) (columns train_df) (columns val_df2) = Inr (f2, tr2, va2)"
    and c2: "feature_cols s2 = filter (\<lambda>c. c \<notin> set exclude_cols)
         (map fst (filter (\<lambda>(c, col). is_numeric_dtype col) (columns train_df)))"
    and e2: "fill_values s2 = f2" by blast
  from c1 c2 have "feature_cols s2 = feature_cols s1" by simp
  with i1 i2 impute_fills_indep have "f1 = f2" by metis
  with e1 e2 r r2 show "fill_values (fst r2) = fill_values (fst r)" by simp
next
  show "prepare_data np train_df val_df =
     (case select_features np init_trainer train_df val_df of
        Inl e \<Rightarrow> Inl e
      | Inr (s, tr, va, X, y, Xv, yv) \<Rightarrow> Inr (tr, X, y, Xv, yv, feature_cols s, fill_values s))"
    by (rule prepare_data_select_features)
qed


text \<open>
  The theorem on the example tables: the median of \<^verbatim>\<open>elo\<close> over the history rows is 3,
  and the missing cells of both tables become 3.
\<close>

theorem fill_from_history_witness:
  "select_features stub_numpy init_trainer example_train example_val =
     Inr (\<lparr>feature_cols = [''elo''], fill_values = [(''elo'', Some 3)]\<rparr>,
          example_train\<lparr>columns :=
            [(''game_pk'', Numeric [Some 1, Some 2, Some 3, Some 4, Some 5, Some 6, Some 7]),
             (''home_team'', Object [Some (Inl ''NYY''), Some (Inl ''BOS''), None, Some (Inl ''NYY''),
                                     Some (Inl ''BOS''), Some (Inl ''NYY''), Some (Inl ''BOS'')]),
             (''elo'', Numeric [Some 3, Some 3, Some 1, Some 5, Some 2, Some 3, Some 4]),
             (''home_won'', Numeric [Some 1, Some 0, Some 1, Some 0, Some 1, Some 0, Some 1])]\<rparr>,
          example_val\<lparr>columns :=
            [(''game_pk'', Numeric [Some 8, Some 9]),
             (''home_team'', Object [Some (Inl ''NYY''), None]),
             (''elo'', Numeric [Some 3, Some 7]),
             (''home_won'', Numeric [Some 1, Some 0])]\<rparr>,
          [[Some 3], [Some 3], [Some 1], [Some 5], [Some 2], [Some 3], [Some 4]],
          [1, 0, 1, 0, 1, 0, 1],
          [[Some 3], [Some 7]],
          [1, 0]) \<and>
   (\<exists>xs vc. map_of (columns example_train) ''elo'' = Some (Numeric xs) \<and>
      map_of (columns example_val) ''elo'' = Some vc \<and>
      map_of [(''elo'', Some 3)] ''elo'' = Some (median xs) \<and>
      [[Some 3], [Some 3], [Some 1], [Some 5], [Some 2], [Some 3], [Some 4]] ! 1 ! 0 = median xs)"
proof -
  let ?self' = "\<lparr>feature_cols = [''elo''], fill_values = [(''elo'', Some (3::real))]\<rparr>"
  let ?train' = "example_train\<lparr>columns :=
            [(''game_pk'', Numeric [Some 1, Some 2, Some 3, Some 4, Some 5, Some 6, Some 7]),
             (''home_team'', Object [Some (Inl ''NYY''), Some (Inl ''BOS''), None, Some (Inl ''NYY''),
                                     Some (Inl ''BOS''), Some (Inl ''NYY''), Some (Inl ''BOS'')]),
             (''elo'', Numeric [Some 3, Some 3, Some 1, Some 5, Some 2, Some 3, Some 4]),
             (''home_won'', Numeric [Some 1, Some 0, Some 1, Some 0, Some 1, Some 0, Some 1])]\<rparr>"
  let ?val' = "example_val\<lparr>columns :=
            [(''game_pk'', Numeric [Some 8, Some 9]),
             (''home_team'', Object [Some (Inl ''NYY''), None]),
             (''elo'', Numeric [Some 3, Some 7]),
             (''home_won'', Numeric [Some 1, Some 0])]\<rparr>"
  let ?X = "[[Some 3], [Some 3], [Some 1], [Some 5], [Some 2], [Some 3], [Some (4::real)]]"
  let ?y = "[1, 0, 1, 0, 1, 0, 1::int]"
  let ?Xv = "[[Some 3], [Some (7::real)]]"
  let ?yv = "[1, 0::int]"
  have h1: "select_features stub_numpy init_trainer example_train example_val =
     Inr (?self', ?train', ?val', ?X, ?y, ?Xv, ?yv)" by code_simp
  have h2: "distinct (map fst (columns example_train))" by code_simp
  have h3: "wf_df example_train" by code_simp
  have h4: "wf_df example_val" by code_simp
  have h5: "0 < length (feature_cols ?self')" by simp
  note t = fill_from_history [of stub_numpy init_trainer example_train example_val ?self' ?train' ?val'
      ?X ?y ?Xv ?yv 0, THEN conjunct1, THEN mp, OF conjI[OF h1 conjI[OF h2 conjI[OF h3 conjI[OF h4 h5]]]]]
  then obtain xs vc where
    x: "map_of (columns example_train) (feature_cols ?self' ! 0) = Some (Numeric xs)"
      "map_of (columns example_val) (feature_cols ?self' ! 0) = Some vc"
      "map_of (fill_values ?self') (feature_cols ?self' ! 0) = Some (median xs)"
      "\<forall>i<nrows example_train. ?X ! i ! 0 = (case xs ! i of None \<Rightarrow> median xs | Some v \<Rightarrow> Some v)"
    by blast
  have e: "map_of (columns example_train) ''elo''
      = Some (Numeric [Some 3, None, Some 1, Some 5, Some 2, None, Some 4])" by code_simp
  from x(1) e have xs: "xs = [Some 3, None, Some 1, Some 5, Some 2, None, Some 4]" by simp
  have n: "1 < nrows example_train" by code_simp
  from x(4) n have "?X ! 1 ! 0 = (case xs ! 1 of None \<Rightarrow> median xs | Some v \<Rightarrow> Some v)" by blast
  with xs have c: "?X ! 1 ! 0 = median xs" by simp
  from x(1,2,3) c have "\<exists>xs vc. map_of (columns example_train) ''elo'' = Some (Numeric xs) \<and>
      map_of (columns example_val) ''elo'' = Some vc \<and>
      map_of [(''elo'', Some 3)] ''elo'' = Some (median xs) \<and>
      ?X ! 1 ! 0 = median xs" by auto
  with h1 show ?thesis by (intro conjI)
qed

subsection \<open>No usable feature column\<close>

lemma impute_Nil_select:
  assumes "filter (\<lambda>c. c \<notin> set exclude_cols)
       (map fst (filter (\<lambda>(c, col). is_numeric_dtype col) (columns train_df))) = []"
  shows "select_features np self train_df val_df =
      (case label_values np train_df of Inl e \<Rightarrow> Inl e | Inr y_train \<Rightarrow>
       case label_values np val_df of Inl e \<Rightarrow> Inl e | Inr y_val \<Rightarrow>
       Inr (self\<lparr>feature_cols := []\<rparr>, train_df, val_df,
            replicate (nrows train_df) [], y_train, replicate (nrows val_df) [], y_val))"
  using assms
  by (simp add: select_features_def Let_def values_float_def label_values_def map_replicate_const
      split: sum.splits option.splits)

text \<open>
  Claim C6, as amended. When no column of the history table is both numeric and outside
  the exclusion list, the loader raises no error of its own: \<^verbatim>\<open>select_features\<close> and
  \<^verbatim>\<open>prepare_data\<close> return an empty list of feature columns, leave the fill values and
  both tables as they were, and return feature matrices with one empty row per table
  row. The only exceptions possible are those of reading the label column
  \<^verbatim>\<open>home_won\<close>.
\<close>

theorem no_feature_column_returns:
  "filter (\<lambda>c. c \<notin> set exclude_cols)
       (map fst (filter (\<lambda>(c, col). is_numeric_dtype col) (columns train_df))) = [] \<longrightarrow>
   select_features np self train_df val_df =
      (case label_values np train_df of Inl e \<Rightarrow> Inl e | Inr y_train \<Rightarrow>
       case label_values np val_df of Inl e \<Rightarrow> Inl e | Inr y_val \<Rightarrow>
       Inr (self\<lparr>feature_cols := []\<rparr>, train_df, val_df,
            replicate (nrows train_df) [], y_train, replicate (nrows val_df) [], y_val)) \<and>
   prepare_data np train_df val_df =
      (case label_values np train_df of Inl e \<Rightarrow> Inl e | Inr y_train \<Rightarrow>
       case label_values np val_df of Inl e \<Rightarrow> Inl e | Inr y_val \<Rightarrow>
       Inr (train_df, replicate (nrows train_df) [], y_train, replicate (nrows val_df) [], y_val,
            [], []))"
proof
  assume a: "filter (\<lambda>c. c \<notin> set exclude_cols)
       (map fst (filter (\<lambda>(c, col). is_numeric_dtype col) (columns train_df))) = []"
  show "select_features np self train_df val_df =
      (case label_values np train_df of Inl e \<Rightarrow> Inl e | Inr y_train \<Rightarrow>
       case label_values np val_df of Inl e \<Rightarrow> Inl e | Inr y_val \<Rightarrow>
       Inr (self\<lparr>feature_cols := []\<rparr>, train_df, val_df,
            replicate (nrows train_df) [], y_train, replicate (nrows val_df) [], y_val)) \<and>
   prepare_data np train_df val_df =
      (case label_values np train_df of Inl e \<Rightarrow> Inl e | Inr y_train \<Rightarrow>
       case label_values np val_df of Inl e \<Rightarrow> Inl e | Inr y_val \<Rightarrow>
       Inr (train_df, replicate (nrows train_df) [], y_train, replicate (nrows val_df) [], y_val,
            [], []))"
    unfolding prepare_data_select_features impute_Nil_select[OF a]
    by (simp add: init_trainer_def split: sum.splits)
qed

text \<open>
  The claim as stated asks for a \<^verbatim>\<open>SchemaError\<close> here. On a history table whose only
  columns are an identifier, a team name and the label, \<^verbatim>\<open>select_features\<close> returns
  normally, with no feature column and matrices of empty rows.
\<close>

theorem no_feature_column_counterexample:
  "select_features stub_numpy init_trainer
     \<lparr>nrows = 2, year_col = Some [Some (2015::int), Some 2016],
      columns = [(''game_pk'', Numeric [Some 1, Some 2]),
                 (''home_team'', Object [Some (Inl ''NYY''), Some (Inl ''BOS'')]),
                 (''home_won'', Numeric [Some 1, Some 0])]\<rparr>
     \<lparr>nrows = 1, year_col = Some [Some 2025],
      columns = [(''game_pk'', Numeric [Some 3]),
                 (''home_team'', Object [Some (Inl ''NYY'')]),
                 (''home_won'', Numeric [Some 1])]\<rparr>
   = Inr (\<lparr>feature_cols = [], fill_values = []\<rparr>,
      \<lparr>nrows = 2, year_col = Some [Some 2015, Some 2016],
       columns = [(''game_pk'', Numeric [Some 1, Some 2]),
                 (''home_team'', Object [Some (Inl ''NYY''), Some (Inl ''BOS'')]),
                 (''home_won'', Numeric [Some 1, Some 0])]\<rparr>,
      \<lparr>nrows = 1, year_col = Some [Some 2025],
       columns = [(''game_pk'', Numeric [Some 3]),
                 (''home_team'', Object [Some (Inl ''NYY'')]),
                 (''home_won'', Numeric [Some 1])]\<rparr>,
      [[], []], [1, 0], [[]], [1])"
  by code_simp

text \<open>
  The amended statement at a table whose only numeric column besides the label is the
  excluded \<^verbatim>\<open>season\<close>.
\<close>

theorem no_feature_column_returns_witness:
  "prepare_data stub_numpy
     \<lparr>nrows = 3, year_col = None,
      columns = [(''season'', Numeric [Some 2015, Some 2015, Some (2016::real)]),
                 (''home_won'', Numeric [Some 0, Some 1, Some 0])]\<rparr>
     \<lparr>nrows = 1, year_col = (None :: int year_column),
      columns = [(''season'', Numeric [Some 2025]),
                 (''home_won'', Numeric [Some 1])]\<rparr>
   = Inr (\<lparr>nrows = 3, year_col = None,
      columns = [(''season'', Numeric [Some 2015, Some 2015, Some 2016]),
                 (''home_won'', Numeric [Some 0, Some 1, Some 0])]\<rparr>,
       [[], [], []], [0, 1, 0], [[]], [1], [], [])"
proof -
  let ?t = "\<lparr>nrows = 3, year_col = (None :: int year_column),
      columns = [(''season'', Numeric [Some 2015, Some 2015, Some (2016::real)]),
                 (''home_won'', Numeric [Some 0, Some 1, Some 0])]\<rparr>"
  let ?v = "\<lparr>nrows = 1, year_col = (None :: int year_column),
      columns = [(''season'', Numeric [Some 2025]),
                 (''home_won'', Numeric [Some 1])]\<rparr>"
  have h: "filter (\<lambda>c. c \<notin> set exclude_cols)
       (map fst (filter (\<lambda>(c, col). is_numeric_dtype col) (columns ?t))) = []" by code_simp
  have r: "(case label_values stub_numpy ?t of Inl e \<Rightarrow> Inl e | Inr y_train \<Rightarrow>
       case label_values stub_numpy ?v of Inl e \<Rightarrow> Inl e | Inr y_val \<Rightarrow>
       Inr (?t, (replicate (nrows ?t) [] :: matrix), y_train, (replicate (nrows ?v) [] :: matrix),
            y_val, ([] :: string list), ([] :: (string \<times> real option) list)))
    = Inr (?t, [[], [], []], [0, 1, 0], [[]], [1], [], [])" by code_simp
  from no_feature_column_returns [of ?t stub_numpy init_trainer ?v, THEN mp, OF h, THEN conjunct2]
  show ?thesis unfolding r .
qed

subsection \<open>The meta-learner and the training run\<close>








lemma update_keys_same:
  "k \<in> fst ` set al \<Longrightarrow> map fst (AList.update k v al) = map fst al"
  by (induction al) auto

lemma fit_models_keys:
  "fit_models api X_tr y_tr X_va y_va val_idx items oof = Inr (items', oof') \<Longrightarrow>
   map fst oof' = map fst oof"
proof (induction items arbitrary: oof items')
  case Nil
  then show ?case by simp
next
  case (Cons item items)
  obtain n m where item: "item = (n, m)" by (cases item)
  from Cons.prems item obtain c c1 rest where
    s: "map_of oof n = Some c"
      "fit_models api X_tr y_tr X_va y_va val_idx items (AList.update n c1 oof) = Inr (rest, oof')"
    by (auto split: sum.splits option.splits)
  from s(1) have "n \<in> fst ` set oof" by (metis domI dom_map_of_conv_image_fst)
  with Cons.IH[OF s(2)] show ?case by (simp add: update_keys_same)
qed

lemma oof_loop_keys:
  "oof_loop api X y folds bm oof = Inr (bm', oof') \<Longrightarrow> map fst oof' = map fst oof"
proof (induction folds arbitrary: bm oof)
  case Nil
  then show ?case by simp
next
  case (Cons f folds)
  obtain tr va fy where f: "f = (tr, va, fy)" by (cases f)
  from oof_loop_ConsD[OF Cons.prems[unfolded f]] obtain X_tr y_tr X_va y_va bm1 oof1 where
    s: "fit_models api X_tr y_tr X_va y_va va bm oof = Inr (bm1, oof1)"
       "oof_loop api X y folds bm1 oof1 = Inr (bm', oof')" by blast
  from Cons.IH[OF s(2)] fit_models_keys[OF s(1)] show ?case by simp
qed

lemma get_oof_keys:
  assumes "get_oof_predictions api X y df_year bm = Inr (bm', oof')"
  shows "map fst oof' = map fst bm \<and> map fst bm' = map fst bm"
proof -
  let ?oof = "map (\<lambda>(name, model). (name, replicate (length y) (None::real option))) bm"
  from assms obtain folds where
    sf: "select_folds api X y df_year = Inr folds"
    and s: "oof_loop api X y folds bm ?oof = Inr (bm', oof')"
    by (auto simp: get_oof_predictions_def split: sum.splits)
  have pre: "\<forall>name\<in>fst ` set bm. map_of ?oof name \<noteq> None"
    by (simp add: map_of_init_oof)
  have "map fst ?oof = map fst bm" by (induction bm) auto
  with oof_loop_keys[OF s] oof_loop_filled[OF s pre, THEN conjunct1] show ?thesis by simp
qed

lemma refit_spec:
  assumes "map_err (\<lambda>(name, model). case fit api model X y of Inl e \<Rightarrow> Inl e
                                     | Inr model' \<Rightarrow> Inr (name, model')) ms = Inr ms'"
  shows "map fst ms' = map fst ms \<and>
     (\<forall>name m. (name, m) \<in> set ms' \<longrightarrow> (\<exists>m1. (name, m1) \<in> set ms \<and> fit api m1 X y = Inr m))"
  using assms
proof (induction ms arbitrary: ms')
  case Nil
  then show ?case by simp
next
  case (Cons a ms)
  obtain n m0 where a: "a = (n, m0)" by (cases a)
  from Cons.prems a obtain m' rest where
    s: "fit api m0 X y = Inr m'"
       "map_err (\<lambda>(name, model). case fit api model X y of Inl e \<Rightarrow> Inl e
                                     | Inr model' \<Rightarrow> Inr (name, model')) ms = Inr rest"
       "ms' = (n, m') # rest"
    by (auto split: sum.splits)
  from Cons.IH[OF s(2)] s a show ?case by auto
qed

lemma select_features_shape:
  assumes "select_features np self train_df val_df = Inr (self', train_df', val_df', X_train, y_train, X_val, y_val)"
  shows "year_col train_df' = year_col train_df \<and> length X_train = nrows train_df"
proof -
  from select_features_D[OF assms] obtain tr where
    t: "train_df' = train_df\<lparr>columns := tr\<rparr>"
    and x: "values_float np train_df' (feature_cols self') = Inr X_train" by blast
  from values_float_spec[OF x, THEN conjunct1] t show ?thesis by simp
qed

lemma run_D:
  assumes "run np api lr xgb_model lgbm meta0 self train_df0 val_df0 = Inr art"
  shows "\<exists>self' train_df val_df X_train y_train X_val y_val models1 oof_preds X_meta y_meta
            vm stacked_probs stacked_auc.
     select_features np self train_df0 val_df0
       = Inr (self', train_df, val_df, X_train, y_train, X_val, y_val) \<and>
     get_oof_predictions api X_train y_train (year_col train_df)
       (build_base_models lr xgb_model lgbm) = Inr (models1, oof_preds) \<and>
     train_meta_model api meta0 oof_preds y_train
       = Inr (meta_model art, meta_order art, X_meta, y_meta) \<and>
     map_err (\<lambda>(name, model). case fit api model X_train y_train of
                                  Inl e \<Rightarrow> Inl e
                                | Inr model' \<Rightarrow> Inr (name, model')) models1
       = Inr (base_models art) \<and>
     val_matrix api (base_models art) (meta_order art) X_val = Inr vm \<and>
     predict_proba api (meta_model art) (map (map Some) vm) = Inr stacked_probs \<and>
     roc_auc_score api y_val stacked_probs = Inr stacked_auc \<and>
     stacked (artifact_metrics art) = (accuracy_score api y_val (threshold stacked_probs), stacked_auc) \<and>
     artifact_feature_cols art = feature_cols self' \<and>
     artifact_fill_values art = fill_values self'"
  using assms unfolding run_def Let_def
  by (simp split: sum.splits prod.splits) force

lemma refit_all2:
  assumes "map_err (\<lambda>(name, model). case fit api model X y of Inl e \<Rightarrow> Inl e
                                     | Inr model' \<Rightarrow> Inr (name, model')) ms = Inr ms'"
  shows "list_all2 (\<lambda>(name1, m1) (name, m). name = name1 \<and> fit api m1 X y = Inr m) ms ms'"
  using assms
proof (induction ms arbitrary: ms')
  case Nil
  then show ?case by simp
next
  case (Cons a ms)
  obtain n m0 where a: "a = (n, m0)" by (cases a)
  from Cons.prems a obtain m' rest where
    s: "fit api m0 X y = Inr m'"
       "map_err (\<lambda>(name, model). case fit api model X y of Inl e \<Rightarrow> Inl e
                                     | Inr model' \<Rightarrow> Inr (name, model')) ms = Inr rest"
       "ms' = (n, m') # rest"
    by (auto split: sum.splits)
  from Cons.IH[OF s(2)] s(1,3) a show ?case by simp
qed




subsection \<open>Rows without a year\<close>

text \<open>
  Claim C10. In time-based mode a history row whose year is missing is in no fold's
  train-index set and in no fold's validate-index set, for both \<^verbatim>\<open>time_folds\<close>
  functions; its cells of the out-of-fold matrix stay unset, so that the meta-learner is
  not fitted on it; yet \<^verbatim>\<open>run\<close> refits each of its three base learners, as the
  out-of-fold pass has left it, on the matrix of all rows of the history table, that row
  included, and these refitted learners are the ones of the artifact.
\<close>

theorem missing_year_rows_excluded:
  "(time_folds (Some col) = Some folds \<and> (train_idx, val_idx, year) \<in> set folds \<and>
    col ! i = None \<longrightarrow> i \<notin> set train_idx \<and> i \<notin> set val_idx) \<and>
   (time_folds_tuned (Some col) = Some folds' \<and> (train_idx', val_idx') \<in> set folds' \<and>
    col ! i = None \<longrightarrow> i \<notin> set train_idx' \<and> i \<notin> set val_idx') \<and>
   (time_folds (Some col) = Some folds \<and>
    get_oof_predictions api X y (Some col) bm = Inr (bm', oof') \<and> name \<in> fst ` set bm \<and>
    i < length y \<and> col ! i = None \<longrightarrow> (\<exists>c. map_of oof' name = Some c \<and> c ! i = None)) \<and>
   (run np api lr xgb_model lgbm meta0 self train_df0 val_df0 = Inr art \<longrightarrow>
      (\<exists>self' train_df val_df X_train y_train X_val y_val models1 oof.
         select_features np self train_df0 val_df0
           = Inr (self', train_df, val_df, X_train, y_train, X_val, y_val) \<and>
         length X_train = nrows train_df0 \<and>
         get_oof_predictions api X_train y_train (year_col train_df0)
           (build_base_models lr xgb_model lgbm) = Inr (models1, oof) \<and>
         map fst (base_models art) = [''lr'', ''xgb'', ''lgbm''] \<and>
         list_all2 (\<lambda>(name1, m1) (name, m). name = name1 \<and> fit api m1 X_train y_train = Inr m)
           models1 (base_models art)))"
proof (intro conjI impI)
  assume a: "time_folds (Some col) = Some folds \<and> (train_idx, val_idx, year) \<in> set folds \<and>
    col ! i = None"
  then have "(train_idx, val_idx, year) \<in> set (fold_loop col (drop 3 (sort (remdups (dropna col)))))"
    using time_folds_SomeD by blast
  with a show "i \<notin> set train_idx" "i \<notin> set val_idx"
    by (auto simp: fold_loop_mem index_where_mem)
next
  assume a: "time_folds_tuned (Some col) = Some folds' \<and> (train_idx', val_idx') \<in> set folds' \<and>
    col ! i = None"
  then obtain folds0 where f0: "time_folds (Some col) = Some folds0"
    and "folds' = map (\<lambda>(tr, va, y). (tr, va)) folds0"
    by (auto simp: time_folds_tuned_eq)
  with a obtain y0 where "(train_idx', val_idx', y0) \<in> set folds0" by auto
  with f0 have "(train_idx', val_idx', y0) \<in> set (fold_loop col (drop 3 (sort (remdups (dropna col)))))"
    using time_folds_SomeD by blast
  with a show "i \<notin> set train_idx'" "i \<notin> set val_idx'"
    by (auto simp: fold_loop_mem index_where_mem)
next
  assume a: "time_folds (Some col) = Some folds \<and>
    get_oof_predictions api X y (Some col) bm = Inr (bm', oof') \<and> name \<in> fst ` set bm \<and>
    i < length y \<and> col ! i = None"
  then have tf: "time_folds (Some col) = Some folds"
    and g: "get_oof_predictions api X y (Some col) bm = Inr (bm', oof')"
    and n: "name \<in> fst ` set bm" and i: "i < length y" and c: "col ! i = None" by simp_all
  from get_oof_filled[OF g n] obtain fs d where
    d: "select_folds api X y (Some col) = Inr fs" "map_of oof' name = Some d"
      "\<forall>j<length y. (d ! j = None) = (j \<notin> (\<Union>f\<in>set fs. set (fst (snd f))))" by blast
  from d(1) select_folds_time[OF tf, of api X y]
  have "fs = map (\<lambda>(tr, va, y). (tr, va, Some y)) folds" by simp
  then have u: "(\<Union>f\<in>set fs. set (fst (snd f))) = (\<Union>f\<in>set folds. set (fst (snd f)))"
    using val_union_map by simp
  have "i \<notin> (\<Union>f\<in>set folds. set (fst (snd f)))"
  proof
    assume "i \<in> (\<Union>f\<in>set folds. set (fst (snd f)))"
    then obtain tr va yr where m: "(tr, va, yr) \<in> set folds" "i \<in> set va" by force
    from m(1) tf have "(tr, va, yr) \<in> set (fold_loop col (drop 3 (sort (remdups (dropna col)))))"
      using time_folds_SomeD by blast
    with m(2) c show False by (auto simp: fold_loop_mem index_where_mem)
  qed
  with d(3) i u have "d ! i = None" by simp
  with d(2) show "\<exists>c. map_of oof' name = Some c \<and> c ! i = None" by blast
next
  assume r: "run np api lr xgb_model lgbm meta0 self train_df0 val_df0 = Inr art"
  from run_D[OF r] obtain self' train_df val_df X_train y_train X_val y_val models1 oof where
    d: "select_features np self train_df0 val_df0
         = Inr (self', train_df, val_df, X_train, y_train, X_val, y_val)"
       "get_oof_predictions api X_train y_train (year_col train_df)
         (build_base_models lr xgb_model lgbm) = Inr (models1, oof)"
       "map_err (\<lambda>(name, model). case fit api model X_train y_train of
                                  Inl e \<Rightarrow> Inl e
                                | Inr model' \<Rightarrow> Inr (name, model')) models1
         = Inr (base_models art)"
    by (elim exE conjE) (rule that)
  note sh = select_features_shape[OF d(1)]
  from sh have l: "length X_train = nrows train_df0" by simp
  from d(2) sh have g: "get_oof_predictions api X_train y_train (year_col train_df0)
         (build_base_models lr xgb_model lgbm) = Inr (models1, oof)" by simp
  have b: "map fst (build_base_models lr xgb_model lgbm) = [''lr'', ''xgb'', ''lgbm'']"
    by (simp add: build_base_models_def)
  from refit_spec[OF d(3), THEN conjunct1] get_oof_keys[OF d(2), THEN conjunct2] b
  have n: "map fst (base_models art) = [''lr'', ''xgb'', ''lgbm'']" by simp
  note f = refit_all2[OF d(3)]
  from d(1) l g n f show "\<exists>self' train_df val_df X_train y_train X_val y_val models1 oof.
         select_features np self train_df0 val_df0
           = Inr (self', train_df, val_df, X_train, y_train, X_val, y_val) \<and>
         length X_train = nrows train_df0 \<and>
         get_oof_predictions api X_train y_train (year_col train_df0)
           (build_base_models lr xgb_model lgbm) = Inr (models1, oof) \<and>
         map fst (base_models art) = [''lr'', ''xgb'', ''lgbm''] \<and>
         list_all2 (\<lambda>(name1, m1) (name, m). name = name1 \<and> fit api m1 X_train y_train = Inr m)
           models1 (base_models art)" by (intro exI conjI)
qed


text \<open>
  The theorem on the table of seven rows, whose row 4 has no year, and on the run over the
  example tables, whose base learners are refitted on all seven rows.
\<close>

theorem missing_year_rows_excluded_witness:
  "time_folds (Some [Some (2015::int), Some 2016, Some 2017, Some 2018, None, Some 2019, Some 2018])
     = Some [([0, 1, 2], [3, 6], 2018), ([0, 1, 2, 3, 6], [5], 2019)] \<and>
   time_folds_tuned (Some [Some (2015::int), Some 2016, Some 2017, Some 2018, None, Some 2019, Some 2018])
     = Some [([0, 1, 2], [3, 6]), ([0, 1, 2, 3, 6], [5])] \<and>
   [Some (2015::int), Some 2016, Some 2017, Some 2018, None, Some 2019, Some 2018] ! 4 = None \<and>
   4 \<notin> set [0, 1, 2, 3, 6 :: nat] \<and> 4 \<notin> set [5 :: nat] \<and>
   get_oof_predictions stub_learners
       [[Some 1], [Some 1], [Some 1], [Some 1], [None], [Some 1], [Some 2]] [0, 1, 0, 1, 0, 1, 1]
       (Some [Some (2015::int), Some 2016, Some 2017, Some 2018, None, Some 2019, Some 2018])
       [(''lr'', 0), (''xgb'', 0)]
     = Inr ([(''lr'', 5), (''xgb'', 5)],
         [(''lr'', [None, None, None, Some (1 / 2), None, Some (1 / 2), Some (1 / 2)]),
          (''xgb'', [None, None, None, Some (1 / 2), None, Some (1 / 2), Some (1 / 2)])]) \<and>
   (\<exists>c. map_of [(''lr'', [None, None, None, Some (1 / 2 :: real), None, Some (1 / 2), Some (1 / 2)]),
          (''xgb'', [None, None, None, Some (1 / 2), None, Some (1 / 2), Some (1 / 2)])] ''lr'' = Some c
        \<and> c ! 4 = None) \<and>
   run stub_numpy stub_learners 0 0 0 0 init_trainer example_train example_val
     = Inr \<lparr>base_models = [(''lr'', 7), (''xgb'', 7), (''lgbm'', 7)],
            meta_model = 3, meta_order = [''lgbm'', ''lr'', ''xgb''],
            artifact_feature_cols = [''elo''],
            artifact_fill_values = [(''elo'', Some 3)],
            artifact_metrics =
              \<lparr>stacked = (1 / 2, 1 / 2),
               base = [(''lr'', 1 / 2, 1 / 2), (''xgb'', 1 / 2, 1 / 2), (''lgbm'', 1 / 2, 1 / 2)]\<rparr>\<rparr> \<and>
   (\<exists>self' train_df val_df X_train y_train X_val y_val models1 oof.
      select_features stub_numpy init_trainer example_train example_val
        = Inr (self', train_df, val_df, X_train, y_train, X_val, y_val) \<and>
      length X_train = nrows example_train \<and>
      get_oof_predictions stub_learners X_train y_train (year_col example_train)
        (build_base_models 0 0 0) = Inr (models1, oof) \<and>
      list_all2 (\<lambda>(name1, m1) (name, m). name = name1 \<and> fit stub_learners m1 X_train y_train = Inr m)
        models1 [(''lr'', 7), (''xgb'', 7), (''lgbm'', 7)])"
proof -
  let ?col = "[Some (2015::int), Some 2016, Some 2017, Some 2018, None, Some 2019, Some 2018]"
  let ?folds = "[([0::nat, 1, 2], [3::nat, 6], 2018::int), ([0, 1, 2, 3, 6], [5], 2019)]"
  let ?folds' = "[([0::nat, 1, 2], [3::nat, 6]), ([0, 1, 2, 3, 6], [5])]"
  let ?X = "[[Some 1], [Some 1], [Some 1], [Some 1], [None], [Some 1], [Some (2::real)]]"
  let ?y = "[0, 1, 0, 1, 0, 1, 1::int]"
  let ?oof = "[(''lr'', [None, None, None, Some (1 / 2 :: real), None, Some (1 / 2), Some (1 / 2)]),
          (''xgb'', [None, None, None, Some (1 / 2), None, Some (1 / 2), Some (1 / 2)])]"
  let ?art = "\<lparr>base_models = [(''lr'', 7::nat), (''xgb'', 7), (''lgbm'', 7)],
            meta_model = 3::nat, meta_order = [''lgbm'', ''lr'', ''xgb''],
            artifact_feature_cols = [''elo''],
            artifact_fill_values = [(''elo'', Some (3::real))],
            artifact_metrics =
              \<lparr>stacked = (1 / 2, 1 / 2),
               base = [(''lr'', 1 / 2, 1 / 2), (''xgb'', 1 / 2, 1 / 2), (''lgbm'', 1 / 2, 1 / 2)]\<rparr>\<rparr>"
  have h1: "time_folds (Some ?col) = Some ?folds" by code_simp
  have h2: "time_folds_tuned (Some ?col) = Some ?folds'" by code_simp
  have h3: "([0, 1, 2, 3, 6], [5], 2019) \<in> set ?folds" by simp
  have h4: "([0, 1, 2, 3, 6], [5]) \<in> set ?folds'" by simp
  have h5: "?col ! 4 = None" by simp
  have h6: "get_oof_predictions stub_learners ?X ?y (Some ?col) [(''lr'', 0), (''xgb'', 0)]
     = Inr ([(''lr'', 5), (''xgb'', 5)], ?oof)" by code_simp
  have h7: "''lr'' \<in> fst ` set [(''lr'', 0::nat), (''xgb'', 0)]" by simp
  have h8: "(4::nat) < length ?y" by simp
  have h9: "run stub_numpy stub_learners 0 0 0 0 init_trainer example_train example_val = Inr ?art"
    by code_simp
  note t = missing_year_rows_excluded [of ?col ?folds "[0, 1, 2, 3, 6]" "[5]" 2019 4 ?folds'
      "[0, 1, 2, 3, 6]" "[5]" stub_learners ?X ?y "[(''lr'', 0), (''xgb'', 0)]"
      "[(''lr'', 5), (''xgb'', 5)]" ?oof "''lr''" stub_numpy 0 0 0 0 init_trainer example_train
      example_val ?art]
  note t1 = t[THEN conjunct1, THEN mp, OF conjI[OF h1 conjI[OF h3 h5]]]
  note t2 = t[THEN conjunct2, THEN conjunct1, THEN mp, OF conjI[OF h2 conjI[OF h4 h5]]]
  note t3 = t[THEN conjunct2, THEN conjunct2, THEN conjunct1, THEN mp,
      OF conjI[OF h1 conjI[OF h6 conjI[OF h7 conjI[OF h8 h5]]]]]
  note t4 = t[THEN conjunct2, THEN conjunct2, THEN conjunct2, THEN mp, OF h9]
  have bm: "base_models ?art = [(''lr'', 7), (''xgb'', 7), (''lgbm'', 7)]" by simp
  from t4 have c: "\<exists>self' train_df val_df X_train y_train X_val y_val models1 oof.
      select_features stub_numpy init_trainer example_train example_val
        = Inr (self', train_df, val_df, X_train, y_train, X_val, y_val) \<and>
      length X_train = nrows example_train \<and>
      get_oof_predictions stub_learners X_train y_train (year_col example_train)
        (build_base_models 0 0 0) = Inr (models1, oof) \<and>
      list_all2 (\<lambda>(name1, m1) (name, m). name = name1 \<and> fit stub_learners m1 X_train y_train = Inr m)
        models1 [(''lr'', 7), (''xgb'', 7), (''lgbm'', 7)]"
    unfolding bm by (elim exE conjE) (intro exI conjI)
  from t1 have c1: "4 \<notin> set [0, 1, 2, 3, 6 :: nat]" "4 \<notin> set [5 :: nat]" by simp_all
  from h1 h2 h5 c1 h6 t3 h9 c show ?thesis by (intro conjI)
qed

subsection \<open>The game predictor\<close>
















subsection \<open>The hyperparameter search\<close>

lemma optimize_Suc:
  "optimize sampler space objective (Suc n) (s, trials) =
     (case objective (fst (suggest_all sampler trials space s)) of
        Inl e \<Rightarrow> Inl e
      | Inr v \<Rightarrow> optimize sampler space objective n
          (snd (suggest_all sampler trials space s),
           trials @ [(fst (suggest_all sampler trials space s),
                      case v of None \<Rightarrow> Failed | Some r \<Rightarrow> Complete r)]))"
  by (simp split: prod.splits sum.splits option.splits)

lemma optimize_add:
  "optimize sampler space objective (k + j) study =
     (case optimize sampler space objective k study of
        Inl e \<Rightarrow> Inl e
      | Inr study' \<Rightarrow> optimize sampler space objective j study')"
proof (induction k arbitrary: study)
  case 0
  show ?case by simp
next
  case (Suc k)
  obtain s trials where st: "study = (s, trials)" by (cases study)
  show ?case unfolding st add_Suc optimize_Suc
    by (simp add: Suc.IH split: sum.splits)
qed

lemma optimize_first_failure:
  assumes "optimize sampler space objective k study0 = Inr (s, trials)" "k < n"
    "objective (fst (suggest_all sampler trials space s)) = Inl e"
  shows "optimize sampler space objective n study0 = Inl e"
proof -
  from assms(2) obtain j where "n = Suc (k + j)" using less_imp_Suc_add by blast
  then have n: "n = k + Suc j" by simp
  have f: "optimize sampler space objective (Suc j) (s, trials) = Inl e"
    by (simp only: optimize_Suc assms(3) sum.case)
  have "optimize sampler space objective (k + Suc j) study0 =
     (case optimize sampler space objective k study0 of
        Inl e \<Rightarrow> Inl e
      | Inr study' \<Rightarrow> optimize sampler space objective (Suc j) study')"
    by (rule optimize_add)
  also have "\<dots> = optimize sampler space objective (Suc j) (s, trials)"
    by (simp only: assms(1) sum.case)
  also note f
  finally show ?thesis unfolding n .
qed

lemma optimize_trials:
  "optimize sampler space objective n (s, trials) = Inr (s', trials') \<Longrightarrow>
   length trials' = length trials + n \<and>
   (\<exists>new. trials' = trials @ new \<and> (\<forall>t\<in>set new. \<exists>v. objective (fst t) = Inr v))"
proof (induction n arbitrary: s trials)
  case 0
  then show ?case by simp
next
  case (Suc n)
  let ?c = "fst (suggest_all sampler trials space s)"
  let ?s = "snd (suggest_all sampler trials space s)"
  from Suc.prems obtain v where v: "objective ?c = Inr v"
    and r: "optimize sampler space objective n
          (?s, trials @ [(?c, case v of None \<Rightarrow> Failed | Some r \<Rightarrow> Complete r)]) = Inr (s', trials')"
    unfolding optimize_Suc by (auto split: sum.splits)
  from Suc.IH[OF r] obtain new where
    n: "length trials' = length (trials @ [(?c, case v of None \<Rightarrow> Failed | Some r \<Rightarrow> Complete r)]) + n"
       "trials' = (trials @ [(?c, case v of None \<Rightarrow> Failed | Some r \<Rightarrow> Complete r)]) @ new"
       "\<forall>t\<in>set new. \<exists>v. objective (fst t) = Inr v" by blast
  let ?new = "(?c, case v of None \<Rightarrow> Failed | Some r \<Rightarrow> Complete r) # new"
  from n(2) have "trials' = trials @ ?new" by simp
  moreover from n(3) v have "\<forall>t\<in>set ?new. \<exists>v. objective (fst t) = Inr v" by simp
  moreover from n(1) have "length trials' = length trials + Suc n" by simp
  ultimately show ?case by blast
qed

lemma best_trial_spec:
  "best_trial trials best = Some (c, v) \<Longrightarrow>
   ((c, Complete v) \<in> set trials \<or> best = Some (c, v)) \<and>
   (\<forall>c' w. (c', Complete w) \<in> set trials \<longrightarrow> w \<le> v) \<and>
   (\<forall>c0 w0. best = Some (c0, w0) \<longrightarrow> w0 \<le> v)"
proof (induction trials best rule: best_trial.induct)
  case (1 best)
  then show ?case by simp
next
  case (2 config trials best)
  then show ?case by simp
next
  case (3 config v' trials best)
  show ?case
  proof (cases best)
    case None
    with 3 show ?thesis by fastforce
  next
    case (Some b)
    obtain c0 w0 where b: "b = (c0, w0)" by (cases b)
    show ?thesis
    proof (cases "w0 < v'")
      case True
      with 3 Some b show ?thesis by fastforce
    next
      case False
      with 3 Some b show ?thesis by fastforce
    qed
  qed
qed

lemma best_params_spec:
  assumes "best_params trials = Inr config"
  shows "\<exists>v. (config, Complete v) \<in> set trials \<and> (\<forall>c w. (c, Complete w) \<in> set trials \<longrightarrow> w \<le> v)"
proof -
  from assms obtain v where "best_trial trials None = Some (config, v)"
    by (auto simp: best_params_def split: option.splits)
  from best_trial_spec[OF this] show ?thesis by auto
qed



subsection \<open>A trial that raises\<close>

lemma cv_score_fit_raises:
  assumes "select_folds_tuned api X y df_year = Inr ((train_idx, val_idx) # folds)"
    "take_rows X train_idx = Inr X_tr" "take_rows y train_idx = Inr y_tr"
    "fit api model_builder X_tr y_tr = Inl e"
  shows "cv_score_auc api model_builder X y df_year = Inl e"
    and "cv_score_accuracy api model_builder X y df_year = Inl e"
  using assms by (simp_all add: cv_score_auc_def cv_score_accuracy_def)

lemma tune_success:
  assumes "(case optimize sampler space objective n_trials (s0, []) of
              Inl e \<Rightarrow> Inl e | Inr (s, trials) \<Rightarrow> best_params trials) = Inr best"
  shows "\<exists>s' trials'. optimize sampler space objective n_trials (s0, []) = Inr (s', trials') \<and>
     length trials' = n_trials \<and> (\<forall>t\<in>set trials'. \<exists>v. objective (fst t) = Inr v) \<and>
     (\<exists>v. (best, Complete v) \<in> set trials' \<and> (\<forall>c w. (c, Complete w) \<in> set trials' \<longrightarrow> w \<le> v))"
proof -
  from assms obtain s' trials' where
    o: "optimize sampler space objective n_trials (s0, []) = Inr (s', trials')"
    and b: "best_params trials' = Inr best"
    by (auto split: sum.splits)
  from optimize_trials[OF o] have "length trials' = n_trials"
    "\<forall>t\<in>set trials'. \<exists>v. objective (fst t) = Inr v" by auto
  with o best_params_spec[OF b] show ?thesis by blast
qed

lemma auc_loop_ok:
  "auc_loop api model_builder X y folds = Inr aucs \<Longrightarrow>
   \<forall>f\<in>set folds. \<exists>X_tr y_tr model X_va probs.
      take_rows X (fst f) = Inr X_tr \<and> take_rows y (fst f) = Inr y_tr \<and>
      fit api model_builder X_tr y_tr = Inr model \<and> take_rows X (snd f) = Inr X_va \<and>
      predict_proba api model X_va = Inr probs"
proof (induction folds arbitrary: aucs)
  case Nil
  show ?case by simp
next
  case (Cons f folds)
  obtain tr va where f: "f = (tr, va)" by (cases f)
  from Cons.prems obtain X_tr y_tr model X_va probs rest where
    s: "take_rows X tr = Inr X_tr" "take_rows y tr = Inr y_tr"
       "fit api model_builder X_tr y_tr = Inr model" "take_rows X va = Inr X_va"
       "predict_proba api model X_va = Inr probs"
       "auc_loop api model_builder X y folds = Inr rest"
    unfolding f by (auto split: sum.splits)
  from s(1-5) have "\<exists>X_tr y_tr model X_va probs.
      take_rows X (fst f) = Inr X_tr \<and> take_rows y (fst f) = Inr y_tr \<and>
      fit api model_builder X_tr y_tr = Inr model \<and> take_rows X (snd f) = Inr X_va \<and>
      predict_proba api model X_va = Inr probs" unfolding f by simp
  with Cons.IH[OF s(6)] show ?case by simp
qed

lemma acc_loop_ok:
  "acc_loop api model_builder X y folds = Inr accs \<Longrightarrow>
   \<forall>f\<in>set folds. \<exists>X_tr y_tr model X_va preds.
      take_rows X (fst f) = Inr X_tr \<and> take_rows y (fst f) = Inr y_tr \<and>
      fit api model_builder X_tr y_tr = Inr model \<and> take_rows X (snd f) = Inr X_va \<and>
      predict api model X_va = Inr preds"
proof (induction folds arbitrary: accs)
  case Nil
  show ?case by simp
next
  case (Cons f folds)
  obtain tr va where f: "f = (tr, va)" by (cases f)
  from Cons.prems obtain X_tr y_tr model X_va preds rest where
    s: "take_rows X tr = Inr X_tr" "take_rows y tr = Inr y_tr"
       "fit api model_builder X_tr y_tr = Inr model" "take_rows X va = Inr X_va"
       "predict api model X_va = Inr preds"
       "acc_loop api model_builder X y folds = Inr rest"
    unfolding f by (auto split: sum.splits)
  from s(1-5) have "\<exists>X_tr y_tr model X_va preds.
      take_rows X (fst f) = Inr X_tr \<and> take_rows y (fst f) = Inr y_tr \<and>
      fit api model_builder X_tr y_tr = Inr model \<and> take_rows X (snd f) = Inr X_va \<and>
      predict api model X_va = Inr preds" unfolding f by simp
  with Cons.IH[OF s(6)] show ?case by simp
qed

lemma cv_score_auc_ok:
  assumes "cv_score_auc api model_builder X y df_year = Inr v"
  shows "\<exists>fs. select_folds_tuned api X y df_year = Inr fs \<and>
     (\<forall>f\<in>set fs. \<exists>X_tr y_tr model X_va probs.
        take_rows X (fst f) = Inr X_tr \<and> take_rows y (fst f) = Inr y_tr \<and>
        fit api model_builder X_tr y_tr = Inr model \<and> take_rows X (snd f) = Inr X_va \<and>
        predict_proba api model X_va = Inr probs)"
proof -
  from assms obtain fs aucs where f: "select_folds_tuned api X y df_year = Inr fs"
    and l: "auc_loop api model_builder X y fs = Inr aucs"
    by (auto simp: cv_score_auc_def split: sum.splits)
  from f auc_loop_ok[OF l] show ?thesis by (intro exI conjI)
qed

lemma cv_score_accuracy_ok:
  assumes "cv_score_accuracy api model_builder X y df_year = Inr v"
  shows "\<exists>fs. select_folds_tuned api X y df_year = Inr fs \<and>
     (\<forall>f\<in>set fs. \<exists>X_tr y_tr model X_va preds.
        take_rows X (fst f) = Inr X_tr \<and> take_rows y (fst f) = Inr y_tr \<and>
        fit api model_builder X_tr y_tr = Inr model \<and> take_rows X (snd f) = Inr X_va \<and>
        predict api model X_va = Inr preds)"
proof -
  from assms obtain fs accs where f: "select_folds_tuned api X y df_year = Inr fs"
    and l: "acc_loop api model_builder X y fs = Inr accs"
    by (auto simp: cv_score_accuracy_def split: sum.splits)
  from f acc_loop_ok[OF l] show ?thesis by (intro exI conjI)
qed

text \<open>
  Claim C5, as amended. A configuration whose \<^verbatim>\<open>fit\<close> raises is not given a score: the
  exception leaves \<^verbatim>\<open>cv_score_auc\<close> and \<^verbatim>\<open>cv_score_accuracy\<close>; an exception of the
  objective at any trial within the budget ends \<^verbatim>\<open>study.optimize\<close>, and \<^verbatim>\<open>tune_xgb\<close> and
  \<^verbatim>\<open>tune_lgbm\<close> raise it. A score is returned only when \<^verbatim>\<open>fit\<close> and the prediction have
  returned normally in every fold. A tuning run returns a configuration only when the objective
  has raised in none of its \<open>n_trials\<close> trials, and then it returns the configuration of
  a completed trial whose score no completed trial exceeds.
\<close>

theorem trial_failure_aborts:
  "(select_folds_tuned api X y df_year = Inr ((train_idx, val_idx) # folds) \<and>
    take_rows X train_idx = Inr X_tr \<and> take_rows y train_idx = Inr y_tr \<and>
    fit api model_builder X_tr y_tr = Inl e \<longrightarrow>
      cv_score_auc api model_builder X y df_year = Inl e \<and>
      cv_score_accuracy api model_builder X y df_year = Inl e) \<and>
   (optimize sampler xgb_space (objective_xgb api xgb_classifier df_year X y metric) k (s0, [])
      = Inr (s, trials) \<and> k < n_trials \<and>
    objective_xgb api xgb_classifier df_year X y metric (fst (suggest_all sampler trials xgb_space s))
      = Inl e \<longrightarrow>
      tune_xgb api sampler s0 xgb_classifier df_year X y n_trials metric = Inl e) \<and>
   (optimize sampler lgbm_space (objective_lgbm api lgbm_classifier df_year X y metric) k (s0, [])
      = Inr (s, trials) \<and> k < n_trials \<and>
    objective_lgbm api lgbm_classifier df_year X y metric (fst (suggest_all sampler trials lgbm_space s))
      = Inl e \<longrightarrow>
      tune_lgbm api sampler s0 lgbm_classifier df_year X y n_trials metric = Inl e) \<and>
   (tune_xgb api sampler s0 xgb_classifier df_year X y n_trials metric = Inr best \<longrightarrow>
      (\<exists>s' trials'.
         optimize sampler xgb_space (objective_xgb api xgb_classifier df_year X y metric) n_trials
           (s0, []) = Inr (s', trials') \<and>
         length trials' = n_trials \<and>
         (\<forall>t\<in>set trials'. \<exists>v. objective_xgb api xgb_classifier df_year X y metric (fst t) = Inr v) \<and>
         (\<exists>v. (best, Complete v) \<in> set trials' \<and>
            (\<forall>c w. (c, Complete w) \<in> set trials' \<longrightarrow> w \<le> v)))) \<and>
   (tune_lgbm api sampler s0 lgbm_classifier df_year X y n_trials metric = Inr best \<longrightarrow>
      (\<exists>s' trials'.
         optimize sampler lgbm_space (objective_lgbm api lgbm_classifier df_year X y metric) n_trials
           (s0, []) = Inr (s', trials') \<and>
         length trials' = n_trials \<and>
         (\<forall>t\<in>set trials'. \<exists>v. objective_lgbm api lgbm_classifier df_year X y metric (fst t) = Inr v) \<and>
         (\<exists>v. (best, Complete v) \<in> set trials' \<and>
            (\<forall>c w. (c, Complete w) \<in> set trials' \<longrightarrow> w \<le> v)))) \<and>
   (cv_score_auc api model_builder X y df_year = Inr score \<longrightarrow>
      (\<exists>fs. select_folds_tuned api X y df_year = Inr fs \<and>
         (\<forall>f\<in>set fs. \<exists>X_tr y_tr model X_va probs.
            take_rows X (fst f) = Inr X_tr \<and> take_rows y (fst f) = Inr y_tr \<and>
            fit api model_builder X_tr y_tr = Inr model \<and> take_rows X (snd f) = Inr X_va \<and>
            predict_proba api model X_va = Inr probs))) \<and>
   (cv_score_accuracy api model_builder X y df_year = Inr score \<longrightarrow>
      (\<exists>fs. select_folds_tuned api X y df_year = Inr fs \<and>
         (\<forall>f\<in>set fs. \<exists>X_tr y_tr model X_va preds.
            take_rows X (fst f) = Inr X_tr \<and> take_rows y (fst f) = Inr y_tr \<and>
            fit api model_builder X_tr y_tr = Inr model \<and> take_rows X (snd f) = Inr X_va \<and>
            predict api model X_va = Inr preds)))"
proof (intro conjI impI)
  assume a: "select_folds_tuned api X y df_year = Inr ((train_idx, val_idx) # folds) \<and>
    take_rows X train_idx = Inr X_tr \<and> take_rows y train_idx = Inr y_tr \<and>
    fit api model_builder X_tr y_tr = Inl e"
  then have a1: "select_folds_tuned api X y df_year = Inr ((train_idx, val_idx) # folds)"
    and a2: "take_rows X train_idx = Inr X_tr" and a3: "take_rows y train_idx = Inr y_tr"
    and a4: "fit api model_builder X_tr y_tr = Inl e" by simp_all
  show "cv_score_auc api model_builder X y df_year = Inl e"
    by (rule cv_score_fit_raises(1)[OF a1 a2 a3 a4])
  show "cv_score_accuracy api model_builder X y df_year = Inl e"
    by (rule cv_score_fit_raises(2)[OF a1 a2 a3 a4])
next
  assume a: "optimize sampler xgb_space (objective_xgb api xgb_classifier df_year X y metric) k (s0, [])
      = Inr (s, trials) \<and> k < n_trials \<and>
    objective_xgb api xgb_classifier df_year X y metric (fst (suggest_all sampler trials xgb_space s))
      = Inl e"
  then have b1: "optimize sampler xgb_space (objective_xgb api xgb_classifier df_year X y metric) k (s0, [])
      = Inr (s, trials)" and b2: "k < n_trials"
    and b3: "objective_xgb api xgb_classifier df_year X y metric (fst (suggest_all sampler trials xgb_space s))
      = Inl e" by simp_all
  have "optimize sampler xgb_space (objective_xgb api xgb_classifier df_year X y metric) n_trials (s0, [])
      = Inl e" by (rule optimize_first_failure[OF b1 b2 b3])
  then show "tune_xgb api sampler s0 xgb_classifier df_year X y n_trials metric = Inl e"
    by (simp add: tune_xgb_def)
next
  assume a: "optimize sampler lgbm_space (objective_lgbm api lgbm_classifier df_year X y metric) k (s0, [])
      = Inr (s, trials) \<and> k < n_trials \<and>
    objective_lgbm api lgbm_classifier df_year X y metric (fst (suggest_all sampler trials lgbm_space s))
      = Inl e"
  then have b1: "optimize sampler lgbm_space (objective_lgbm api lgbm_classifier df_year X y metric) k (s0, [])
      = Inr (s, trials)" and b2: "k < n_trials"
    and b3: "objective_lgbm api lgbm_classifier df_year X y metric (fst (suggest_all sampler trials lgbm_space s))
      = Inl e" by simp_all
  have "optimize sampler lgbm_space (objective_lgbm api lgbm_classifier df_year X y metric) n_trials (s0, [])
      = Inl e" by (rule optimize_first_failure[OF b1 b2 b3])
  then show "tune_lgbm api sampler s0 lgbm_classifier df_year X y n_trials metric = Inl e"
    by (simp add: tune_lgbm_def)
next
  assume "tune_xgb api sampler s0 xgb_classifier df_year X y n_trials metric = Inr best"
  then show "\<exists>s' trials'.
         optimize sampler xgb_space (objective_xgb api xgb_classifier df_year X y metric) n_trials
           (s0, []) = Inr (s', trials') \<and>
         length trials' = n_trials \<and>
         (\<forall>t\<in>set trials'. \<exists>v. objective_xgb api xgb_classifier df_year X y metric (fst t) = Inr v) \<and>
         (\<exists>v. (best, Complete v) \<in> set trials' \<and>
            (\<forall>c w. (c, Complete w) \<in> set trials' \<longrightarrow> w \<le> v))"
    unfolding tune_xgb_def by (rule tune_success)
next
  assume "tune_lgbm api sampler s0 lgbm_classifier df_year X y n_trials metric = Inr best"
  then show "\<exists>s' trials'.
         optimize sampler lgbm_space (objective_lgbm api lgbm_classifier df_year X y metric) n_trials
           (s0, []) = Inr (s', trials') \<and>
         length trials' = n_trials \<and>
         (\<forall>t\<in>set trials'. \<exists>v. objective_lgbm api lgbm_classifier df_year X y metric (fst t) = Inr v) \<and>
         (\<exists>v. (best, Complete v) \<in> set trials' \<and>
            (\<forall>c w. (c, Complete w) \<in> set trials' \<longrightarrow> w \<le> v))"
    unfolding tune_lgbm_def by (rule tune_success)
next
  assume "cv_score_auc api model_builder X y df_year = Inr score"
  then show "\<exists>fs. select_folds_tuned api X y df_year = Inr fs \<and>
         (\<forall>f\<in>set fs. \<exists>X_tr y_tr model X_va probs.
            take_rows X (fst f) = Inr X_tr \<and> take_rows y (fst f) = Inr y_tr \<and>
            fit api model_builder X_tr y_tr = Inr model \<and> take_rows X (snd f) = Inr X_va \<and>
            predict_proba api model X_va = Inr probs)"
    by (rule cv_score_auc_ok)
next
  assume "cv_score_accuracy api model_builder X y df_year = Inr score"
  then show "\<exists>fs. select_folds_tuned api X y df_year = Inr fs \<and>
         (\<forall>f\<in>set fs. \<exists>X_tr y_tr model X_va preds.
            take_rows X (fst f) = Inr X_tr \<and> take_rows y (fst f) = Inr y_tr \<and>
            fit api model_builder X_tr y_tr = Inr model \<and> take_rows X (snd f) = Inr X_va \<and>
            predict api model X_va = Inr preds)"
    by (rule cv_score_accuracy_ok)
qed

text \<open>
  The claim as stated: a failing configuration is scored as the worst value and the
  search goes on to its end. With a \<^verbatim>\<open>fit\<close> that raises for the second of three
  proposed configurations only (the first and the third score 1/2), \<^verbatim>\<open>tune_xgb\<close> raises
  that exception and returns no configuration.
\<close>

theorem trial_failure_counterexample:
  "objective_xgb failing_learners stub_classifier example_years example_matrix example_labels ''auc''
       (stub_xgb_config 200 4 6) = Inr (Some (1 / 2)) \<and>
   objective_xgb failing_learners stub_classifier example_years example_matrix example_labels ''auc''
       (stub_xgb_config 208 6 6) = Inl (LibraryError ''fit'') \<and>
   objective_xgb failing_learners stub_classifier example_years example_matrix example_labels ''auc''
       (stub_xgb_config 216 8 6) = Inr (Some (1 / 2)) \<and>
   optimize stub_sampler xgb_space
       (objective_xgb stub_learners stub_classifier example_years example_matrix example_labels ''auc'')
       3 (0, [])
     = Inr (24, [(stub_xgb_config 200 4 6, Complete (1 / 2)),
                 (stub_xgb_config 208 6 6, Complete (1 / 2)),
                 (stub_xgb_config 216 8 6, Complete (1 / 2))]) \<and>
   tune_xgb failing_learners stub_sampler 0 stub_classifier example_years example_matrix
       example_labels 3 ''auc''
     = Inl (LibraryError ''fit'')"
  by code_simp

text \<open>
  The amended statement on the example rows: an estimator of 208 trees fails in both
  scores, a search whose second trial proposes 208 trees raises, for both tuning
  functions, and a search with the estimators that never raise returns the first of its
  two equally scored configurations.
\<close>

theorem trial_failure_aborts_witness:
  "cv_score_auc failing_learners 208 example_matrix example_labels example_years
     = Inl (LibraryError ''fit'') \<and>
   cv_score_accuracy failing_learners 208 example_matrix example_labels example_years
     = Inl (LibraryError ''fit'') \<and>
   tune_xgb failing_learners stub_sampler 0 stub_classifier example_years example_matrix
       example_labels 3 ''auc''
     = Inl (LibraryError ''fit'') \<and>
   tune_lgbm failing_learners stub_sampler 1 stub_classifier example_years example_matrix
       example_labels 3 ''accuracy''
     = Inl (LibraryError ''fit'') \<and>
   tune_xgb stub_learners stub_sampler 0 stub_classifier example_years example_matrix
       example_labels 2 ''auc''
     = Inr (stub_xgb_config 200 4 6) \<and>
   (\<exists>s' trials'.
      optimize stub_sampler xgb_space
        (objective_xgb stub_learners stub_classifier example_years example_matrix example_labels ''auc'')
        2 (0, []) = Inr (s', trials') \<and>
      length trials' = 2 \<and>
      (\<exists>v. (stub_xgb_config 200 4 6, Complete v) \<in> set trials')) \<and>
   tune_lgbm stub_learners stub_sampler 0 stub_classifier example_years example_matrix
       example_labels 2 ''accuracy''
     = Inr (stub_lgbm_config 200 18 23) \<and>
   (\<exists>s' trials'.
      optimize stub_sampler lgbm_space
        (objective_lgbm stub_learners stub_classifier example_years example_matrix example_labels
           ''accuracy'')
        2 (0, []) = Inr (s', trials') \<and>
      length trials' = 2 \<and>
      (\<exists>v. (stub_lgbm_config 200 18 23, Complete v) \<in> set trials')) \<and>
   cv_score_auc stub_learners 200 example_matrix example_labels example_years
     = Inr (Some (1 / 2)) \<and>
   cv_score_accuracy stub_learners 200 example_matrix example_labels example_years
     = Inr (Some (1 / 2)) \<and>
   (\<exists>fs. select_folds_tuned stub_learners example_matrix example_labels example_years = Inr fs)"
proof -
  let ?ox = "objective_xgb failing_learners stub_classifier example_years example_matrix
      example_labels ''auc''"
  let ?ol = "objective_lgbm failing_learners stub_classifier example_years example_matrix
      example_labels ''accuracy''"
  let ?tx = "[(stub_xgb_config 200 4 6, Complete (1 / 2))]"
  let ?tl = "[(stub_lgbm_config 201 19 24, Complete (1 / 2))]"
  have f1: "select_folds_tuned failing_learners example_matrix example_labels example_years
      = Inr (([0, 1, 2], [3, 6]) # [([0, 1, 2, 3, 6], [5])])" by code_simp
  have f2: "take_rows example_matrix [0, 1, 2] = Inr [[Some 3], [Some 3], [Some 1]]" by code_simp
  have f3: "take_rows example_labels [0, 1, 2] = Inr [1, 0, 1]" by code_simp
  have f4: "fit failing_learners 208 [[Some 3], [Some 3], [Some 1]] [1, 0, 1]
      = Inl (LibraryError ''fit'')" by code_simp
  have x1: "optimize stub_sampler xgb_space ?ox 1 (0, []) = Inr (8, ?tx)" by code_simp
  have x2: "(1::nat) < 3" by simp
  have x3: "?ox (fst (suggest_all stub_sampler ?tx xgb_space 8)) = Inl (LibraryError ''fit'')"
    by code_simp
  have l1: "optimize stub_sampler lgbm_space ?ol 1 (1, []) = Inr (8, ?tl)" by code_simp
  have l3: "?ol (fst (suggest_all stub_sampler ?tl lgbm_space 8)) = Inl (LibraryError ''fit'')"
    by code_simp
  have sx: "tune_xgb stub_learners stub_sampler 0 stub_classifier example_years example_matrix
       example_labels 2 ''auc'' = Inr (stub_xgb_config 200 4 6)" by code_simp
  have sl: "tune_lgbm stub_learners stub_sampler 0 stub_classifier example_years example_matrix
       example_labels 2 ''accuracy'' = Inr (stub_lgbm_config 200 18 23)" by code_simp
  note tc = trial_failure_aborts [where api = failing_learners and X = example_matrix
      and y = example_labels and df_year = example_years and train_idx = "[0, 1, 2]"
      and val_idx = "[3, 6]" and folds = "[([0, 1, 2, 3, 6], [5])]"
      and X_tr = "[[Some 3], [Some 3], [Some 1]]" and y_tr = "[1, 0, 1]" and model_builder = 208
      and e = "LibraryError ''fit''", THEN conjunct1, THEN mp, OF conjI[OF f1 conjI[OF f2 conjI[OF f3 f4]]]]
  note tx = trial_failure_aborts [where api = failing_learners and X = example_matrix
      and y = example_labels and df_year = example_years and sampler = stub_sampler
      and xgb_classifier = stub_classifier and metric = "''auc''" and k = 1 and ?s0.0 = 0
      and s = 8 and trials = ?tx and n_trials = 3 and e = "LibraryError ''fit''",
      THEN conjunct2, THEN conjunct1, THEN mp, OF conjI[OF x1 conjI[OF x2 x3]]]
  note tl = trial_failure_aborts [where api = failing_learners and X = example_matrix
      and y = example_labels and df_year = example_years and sampler = stub_sampler
      and lgbm_classifier = stub_classifier and metric = "''accuracy''" and k = 1 and ?s0.0 = 1
      and s = 8 and trials = ?tl and n_trials = 3 and e = "LibraryError ''fit''",
      THEN conjunct2, THEN conjunct2, THEN conjunct1, THEN mp, OF conjI[OF l1 conjI[OF x2 l3]]]
  note okx = trial_failure_aborts [where api = stub_learners and X = example_matrix
      and y = example_labels and df_year = example_years and sampler = stub_sampler
      and xgb_classifier = stub_classifier and ?s0.0 = 0 and n_trials = 2
      and metric = "''auc''" and best = "stub_xgb_config 200 4 6",
      THEN conjunct2, THEN conjunct2, THEN conjunct2, THEN conjunct1, THEN mp, OF sx]
  note okl = trial_failure_aborts [where api = stub_learners and X = example_matrix
      and y = example_labels and df_year = example_years and sampler = stub_sampler
      and lgbm_classifier = stub_classifier and ?s0.0 = 0 and n_trials = 2
      and metric = "''accuracy''" and best = "stub_lgbm_config 200 18 23",
      THEN conjunct2, THEN conjunct2, THEN conjunct2, THEN conjunct2, THEN conjunct1, THEN mp, OF sl]
  have ca: "cv_score_auc stub_learners 200 example_matrix example_labels example_years
      = Inr (Some (1 / 2))" by code_simp
  have cc: "cv_score_accuracy stub_learners 200 example_matrix example_labels example_years
      = Inr (Some (1 / 2))" by code_simp
  note oka = trial_failure_aborts [where api = stub_learners and X = example_matrix
      and y = example_labels and df_year = example_years and model_builder = 200
      and score = "Some (1 / 2)",
      THEN conjunct2, THEN conjunct2, THEN conjunct2, THEN conjunct2, THEN conjunct2,
      THEN conjunct1, THEN mp, OF ca]
  note okc = trial_failure_aborts [where api = stub_learners and X = example_matrix
      and y = example_labels and df_year = example_years and model_builder = 200
      and score = "Some (1 / 2)",
      THEN conjunct2, THEN conjunct2, THEN conjunct2, THEN conjunct2, THEN conjunct2,
      THEN conjunct2, THEN mp, OF cc]
  from oka have wa: "\<exists>fs. select_folds_tuned stub_learners example_matrix example_labels example_years
      = Inr fs" by blast
  from okc have wc: "\<exists>fs. select_folds_tuned stub_learners example_matrix example_labels example_years
      = Inr fs" by blast
  from okx
  have a: "\<exists>s' trials'.
      optimize stub_sampler xgb_space
        (objective_xgb stub_learners stub_classifier example_years example_matrix example_labels ''auc'')
        2 (0, []) = Inr (s', trials') \<and>
      length trials' = 2 \<and>
      (\<exists>v. (stub_xgb_config 200 4 6, Complete v) \<in> set trials')" by blast
  from okl
  have b: "\<exists>s' trials'.
      optimize stub_sampler lgbm_space
        (objective_lgbm stub_learners stub_classifier example_years example_matrix example_labels
           ''accuracy'')
        2 (0, []) = Inr (s', trials') \<and>
      length trials' = 2 \<and>
      (\<exists>v. (stub_lgbm_config 200 18 23, Complete v) \<in> set trials')" by blast
  from tc tx tl sx a sl b ca cc wa show ?thesis by (intro conjI) simp_all
qed

subsection \<open>Determinism of the search\<close>





end
